theory Spec2Isabelle
  imports Complex_Main
begin

section \<open>Python values and text primitives\<close>

text \<open>
  A message is whatever \<^verbatim>\<open>json.load\<close> produced: null, a boolean, a number, a string,
  a list or a dictionary with string keys.  A dictionary is an association list in
  insertion order (\<^verbatim>\<open>values()\<close> iterates in that order); a key is looked up with
  \<open>map_of\<close>.  The program observes a float only through \<^verbatim>\<open>str\<close>, \<^verbatim>\<open>isinstance\<close> and
  \<^verbatim>\<open>is None\<close>, so a float is carried as the text \<^verbatim>\<open>repr\<close> prints for it.  Text is a
  \<open>char list\<close>, so a character is a code point below 256; the case functions below are
  those of Python on ASCII letters and leave every other character as it is.
\<close>

datatype pyval =
    PNone
  | PBool bool
  | PInt int
  | PFloat string
  | PStr string
  | PList "pyval list"
  | PDict "(string \<times> pyval) list"

datatype exn =
    TypeError string
  | ValueError string
  | KeyError string
  | ZeroDivisionError string

fun exn_name :: "exn \<Rightarrow> string" where
  "exn_name (TypeError _) = ''TypeError''"
| "exn_name (ValueError _) = ''ValueError''"
| "exn_name (KeyError _) = ''KeyError''"
| "exn_name (ZeroDivisionError _) = ''ZeroDivisionError''"

fun isinstance_dict :: "pyval \<Rightarrow> bool" where
  "isinstance_dict (PDict _) = True"
| "isinstance_dict _ = False"

fun type_name :: "pyval \<Rightarrow> string" where
  "type_name PNone = ''NoneType''"
| "type_name (PBool _) = ''bool''"
| "type_name (PInt _) = ''int''"
| "type_name (PFloat _) = ''float''"
| "type_name (PStr _) = ''str''"
| "type_name (PList _) = ''list''"
| "type_name (PDict _) = ''dict''"

text \<open>\<^verbatim>\<open>d.get(k, default)\<close> and \<^verbatim>\<open>d[k]\<close> on a dictionary.\<close>

definition dict_get :: "(string \<times> pyval) list \<Rightarrow> string \<Rightarrow> pyval \<Rightarrow> pyval" where
  "dict_get d k dflt = (case map_of d k of None \<Rightarrow> dflt | Some v \<Rightarrow> v)"

definition getitem :: "(string \<times> pyval) list \<Rightarrow> string \<Rightarrow> exn + pyval" where
  "getitem d k = (case map_of d k of None \<Rightarrow> Inl (KeyError k) | Some v \<Rightarrow> Inr v)"

subsection \<open>Characters\<close>

text \<open>\<^verbatim>\<open>str.isspace\<close> on the code points below 256.\<close>

definition isspace :: "char \<Rightarrow> bool" where
  "isspace c \<longleftrightarrow>
     c \<in> set [CHR 0x09, CHR 0x0A, CHR 0x0B, CHR 0x0C, CHR 0x0D, CHR 0x1C, CHR 0x1D,
              CHR 0x1E, CHR 0x1F, CHR 0x20, CHR 0x85, CHR 0xA0]"

definition isdigit :: "char \<Rightarrow> bool" where
  "isdigit c \<longleftrightarrow> c \<in> set ''0123456789''"

definition digit_val :: "char \<Rightarrow> nat" where
  "digit_val c = of_char c - 48"

definition upper_letters :: string where
  "upper_letters = ''ABCDEFGHIJKLMNOPQRSTUVWXYZ''"

definition lower_letters :: string where
  "lower_letters = ''abcdefghijklmnopqrstuvwxyz''"

definition iscased :: "char \<Rightarrow> bool" where
  "iscased c \<longleftrightarrow> c \<in> set upper_letters \<or> c \<in> set lower_letters"

definition lower_char :: "char \<Rightarrow> char" where
  "lower_char c = (case map_of (zip upper_letters lower_letters) c of Some d \<Rightarrow> d | None \<Rightarrow> c)"

definition upper_char :: "char \<Rightarrow> char" where
  "upper_char c = (case map_of (zip lower_letters upper_letters) c of Some d \<Rightarrow> d | None \<Rightarrow> c)"

subsection \<open>String methods\<close>

definition lower :: "string \<Rightarrow> string" where
  "lower s = map lower_char s"

definition upper :: "string \<Rightarrow> string" where
  "upper s = map upper_char s"

text \<open>
  \<^verbatim>\<open>str.title\<close>: a letter that follows a cased character is lower-cased, any other
  letter is upper-cased.
\<close>

fun title_from :: "bool \<Rightarrow> string \<Rightarrow> string" where
  "title_from prev [] = []"
| "title_from prev (c # cs) =
     (if prev then lower_char c else upper_char c) # title_from (iscased c) cs"

definition title :: "string \<Rightarrow> string" where
  "title s = title_from False s"

text \<open>\<^verbatim>\<open>s.strip()\<close> and \<^verbatim>\<open>s.strip(chars)\<close>.\<close>

definition strip :: "string \<Rightarrow> string" where
  "strip s = rev (dropWhile isspace (rev (dropWhile isspace s)))"

definition strip_chars :: "string \<Rightarrow> string \<Rightarrow> string" where
  "strip_chars cs s =
     rev (dropWhile (\<lambda>c. c \<in> set cs) (rev (dropWhile (\<lambda>c. c \<in> set cs) s)))"

text \<open>
  \<^verbatim>\<open>s.replace(old, new)\<close> for a non-empty \<open>old\<close> (every call of the program passes
  a literal of one or two characters): occurrences are replaced from the left and do
  not overlap.  The counter is the number of characters of a matched occurrence still
  to be skipped.
\<close>

fun replace_from :: "nat \<Rightarrow> string \<Rightarrow> string \<Rightarrow> string \<Rightarrow> string" where
  "replace_from n old new [] = []"
| "replace_from (Suc n) old new (c # cs) = replace_from n old new cs"
| "replace_from 0 old new (c # cs) =
     (if take (length old) (c # cs) = old
      then new @ replace_from (length old - 1) old new cs
      else c # replace_from 0 old new cs)"

definition replace :: "string \<Rightarrow> string \<Rightarrow> string \<Rightarrow> string" where
  "replace old new s = replace_from 0 old new s"

text \<open>
  \<^verbatim>\<open>s.split()\<close>: the maximal runs of non-whitespace characters.  The first argument
  of \<open>split_from\<close> is the word read so far.
\<close>

fun split_from :: "string \<Rightarrow> string \<Rightarrow> string list" where
  "split_from w [] = (if w = [] then [] else [w])"
| "split_from w (c # cs) =
     (if isspace c then (if w = [] then split_from [] cs else w # split_from [] cs)
      else split_from (w @ [c]) cs)"

definition split :: "string \<Rightarrow> string list" where
  "split s = split_from [] s"

text \<open>\<^verbatim>\<open>sep.join(words)\<close>.\<close>

fun join :: "string \<Rightarrow> string list \<Rightarrow> string" where
  "join sep [] = []"
| "join sep [w] = w"
| "join sep (w # v # ws) = w @ sep @ join sep (v # ws)"

subsection \<open>\<^verbatim>\<open>str\<close> and \<^verbatim>\<open>repr\<close>\<close>

definition digit_char :: "nat \<Rightarrow> char" where
  "digit_char n = ''0123456789abcdef'' ! (n mod 16)"

fun dec_nat :: "nat \<Rightarrow> string" where
  "dec_nat n = (if n < 10 then [digit_char n] else dec_nat (n div 10) @ [digit_char (n mod 10)])"

declare dec_nat.simps [simp del]

definition str_int :: "int \<Rightarrow> string" where
  "str_int i = (if i < 0 then ''-'' @ dec_nat (nat (- i)) else dec_nat (nat i))"

definition hex2 :: "char \<Rightarrow> string" where
  "hex2 c = [digit_char (of_char c div 16), digit_char (of_char c mod 16)]"

text \<open>
  \<^verbatim>\<open>str.isprintable\<close> on the code points below 256: the ASCII graphic characters and
  space, and the Latin-1 characters from 0xA1 on except the soft hyphen.
\<close>

definition isprintable :: "char \<Rightarrow> bool" where
  "isprintable c \<longleftrightarrow>
     (let n = (of_char c :: nat) in (32 \<le> n \<and> n < 127) \<or> (161 \<le> n \<and> n \<noteq> 173))"

definition repr_char :: "char \<Rightarrow> char \<Rightarrow> string" where
  "repr_char q c =
     (if c = q \<or> c = CHR 0x5C then [CHR 0x5C, c]
      else if c = CHR 0x09 then [CHR 0x5C, CHR ''t'']
      else if c = CHR 0x0A then [CHR 0x5C, CHR ''n'']
      else if c = CHR 0x0D then [CHR 0x5C, CHR ''r'']
      else if isprintable c then [c]
      else [CHR 0x5C, CHR ''x''] @ hex2 c)"

definition repr_str :: "string \<Rightarrow> string" where
  "repr_str s =
     (let q = (if CHR 0x27 \<in> set s \<and> CHR 0x22 \<notin> set s then CHR 0x22 else CHR 0x27)
      in [q] @ concat (map (repr_char q) s) @ [q])"

fun repr :: "pyval \<Rightarrow> string" where
  "repr PNone = ''None''"
| "repr (PBool b) = (if b then ''True'' else ''False'')"
| "repr (PInt i) = str_int i"
| "repr (PFloat r) = r"
| "repr (PStr s) = repr_str s"
| "repr (PList xs) = ''['' @ join '', '' (map repr xs) @ '']''"
| "repr (PDict kvs) =
     ''{'' @ join '', '' (map (\<lambda>kv. repr_str (fst kv) @ '': '' @ repr (snd kv)) kvs) @ ''}''"

fun str :: "pyval \<Rightarrow> string" where
  "str (PStr s) = s"
| "str v = repr v"

section \<open>The library call \<^verbatim>\<open>datetime.strptime(s, "%Y-%m-%d %H:%M:%S")\<close>\<close>

text \<open>
  CPython turns the format into the regular expression
  \<^verbatim>\<open>(?P<Y>\d\d\d\d)-(?P<m>1[0-2]|0[1-9]|[1-9])-(?P<d>3[0-1]|[1-2]\d|0[1-9]|[1-9]| [1-9])\s+\<close>
  \<^verbatim>\<open>(?P<H>2[0-3]|[0-1]\d|\d):(?P<M>[0-5]\d|\d):(?P<S>6[0-1]|[0-5]\d|\d)\<close>,
  matches it at the start of the text, complains when the match does not reach the end,
  and builds a \<^verbatim>\<open>date\<close> and a \<^verbatim>\<open>datetime\<close> from the groups, whose constructors
  check the ranges.  Every failure is a \<^verbatim>\<open>ValueError\<close>.  A backtracking matcher is a
  function from the text to the list of its matches (value and remaining text) in the
  order the matcher tries them; the match found is the first of the list.
\<close>

record datetime =
  year :: nat
  month :: nat
  day :: nat
  hour :: nat
  minute :: nat
  second :: nat

type_synonym 'a matcher = "string \<Rightarrow> ('a \<times> string) list"

definition one_of :: "string \<Rightarrow> char \<Rightarrow> bool" where
  "one_of cs c \<longleftrightarrow> c \<in> set cs"

definition digit1 :: "(char \<Rightarrow> bool) \<Rightarrow> nat matcher" where
  "digit1 p s = (case s of a # r \<Rightarrow> if p a then [(digit_val a, r)] else [] | _ \<Rightarrow> [])"

definition digit2 :: "(char \<Rightarrow> bool) \<Rightarrow> (char \<Rightarrow> bool) \<Rightarrow> nat matcher" where
  "digit2 p q s =
     (case s of
        a # b # r \<Rightarrow> if p a \<and> q b then [(10 * digit_val a + digit_val b, r)] else []
      | _ \<Rightarrow> [])"

definition literal :: "char \<Rightarrow> unit matcher" where
  "literal c s = (case s of a # r \<Rightarrow> if a = c then [((), r)] else [] | _ \<Rightarrow> [])"

text \<open>\<^verbatim>\<open>\s+\<close> is greedy: the longest run of whitespace is tried first.\<close>

fun spaces_rests :: "string \<Rightarrow> string list" where
  "spaces_rests [] = []"
| "spaces_rests (c # cs) = (if isspace c then spaces_rests cs @ [cs] else [])"

definition spaces :: "unit matcher" where
  "spaces s = map (\<lambda>r. ((), r)) (spaces_rests s)"

definition re_Y :: "nat matcher" where
  "re_Y s =
     (case s of
        a # b # c # d # r \<Rightarrow>
          if isdigit a \<and> isdigit b \<and> isdigit c \<and> isdigit d
          then [(1000 * digit_val a + 100 * digit_val b + 10 * digit_val c + digit_val d, r)]
          else []
      | _ \<Rightarrow> [])"

definition re_m :: "nat matcher" where
  "re_m s =
     digit2 (one_of ''1'') (one_of ''012'') s
     @ digit2 (one_of ''0'') (one_of ''123456789'') s
     @ digit1 (one_of ''123456789'') s"

definition re_d :: "nat matcher" where
  "re_d s =
     digit2 (one_of ''3'') (one_of ''01'') s
     @ digit2 (one_of ''12'') isdigit s
     @ digit2 (one_of ''0'') (one_of ''123456789'') s
     @ digit1 (one_of ''123456789'') s
     @ concat (map (\<lambda>(u, r). digit1 (one_of ''123456789'') r) (literal CHR 0x20 s))"

definition re_H :: "nat matcher" where
  "re_H s =
     digit2 (one_of ''2'') (one_of ''0123'') s
     @ digit2 (one_of ''01'') isdigit s
     @ digit1 isdigit s"

definition re_M :: "nat matcher" where
  "re_M s = digit2 (one_of ''012345'') isdigit s @ digit1 isdigit s"

definition re_S :: "nat matcher" where
  "re_S s =
     digit2 (one_of ''6'') (one_of ''01'') s
     @ digit2 (one_of ''012345'') isdigit s
     @ digit1 isdigit s"

definition seq :: "'a matcher \<Rightarrow> ('a \<Rightarrow> 'b matcher) \<Rightarrow> 'b matcher" where
  "seq p f s = concat (map (\<lambda>(a, r). f a r) (p s))"

definition format_regex :: "datetime matcher" where
  "format_regex =
     seq re_Y (\<lambda>Y. seq (literal CHR ''-'') (\<lambda>_. seq re_m (\<lambda>m. seq (literal CHR ''-'') (\<lambda>_.
     seq re_d (\<lambda>d. seq spaces (\<lambda>_. seq re_H (\<lambda>H. seq (literal CHR '':'') (\<lambda>_.
     seq re_M (\<lambda>M. seq (literal CHR '':'') (\<lambda>_. seq re_S (\<lambda>S. (\<lambda>r.
       [(\<lparr>year = Y, month = m, day = d, hour = H, minute = M, second = S\<rparr>, r)]))))))))))))"

definition is_leap :: "nat \<Rightarrow> bool" where
  "is_leap y \<longleftrightarrow> y mod 4 = 0 \<and> (0 < y mod 100 \<or> y mod 400 = 0)"

definition days_in_month :: "nat \<Rightarrow> nat \<Rightarrow> nat" where
  "days_in_month y m =
     (if m = 2 then (if is_leap y then 29 else 28)
      else if m \<in> {4, 6, 9, 11} then 30 else 31)"

definition strptime :: "string \<Rightarrow> string + datetime" where
  "strptime data_string =
     (case format_regex data_string of
        [] \<Rightarrow> Inl (''time data '' @ repr_str data_string
                   @ '' does not match format '' @ repr_str ''%Y-%m-%d %H:%M:%S'')
      | (dt, rest) # _ \<Rightarrow>
          if rest \<noteq> [] then Inl (''unconverted data remains: '' @ rest)
          else if year dt < 1 then Inl (''year '' @ dec_nat (year dt) @ '' is out of range'')
          else if days_in_month (year dt) (month dt) < day dt
            then Inl ''day is out of range for month''
          else if 59 < second dt then Inl ''second must be in 0..59''
          else Inr dt)"

section \<open>Runner results and test cases\<close>

text \<open>
  A test case is a dictionary; \<^verbatim>\<open>test_case["message"]\<close> raises \<^verbatim>\<open>KeyError\<close> when
  the key is absent.  The runner's \<^verbatim>\<open>results\<close> dictionary has three fixed keys.
\<close>

type_synonym test_case = "(string \<times> pyval) list"

record results =
  success :: nat
  failure :: nat
  errors :: "string list"

section \<open>Raising strategy (\<^verbatim>\<open>benchmark_exception.py\<close>)\<close>

text \<open>
  A function that may raise returns \<open>exn + datetime\<close>: \<open>Inl e\<close> is the exception \<open>e\<close>
  unwinding through the caller, \<open>Inr dt\<close> the normal return.  Only
  \<^verbatim>\<open>validate_format_*\<close> has a \<^verbatim>\<open>raise\<close>; the levels above make no failing call of
  their own (\<^verbatim>\<open>str\<close>, \<^verbatim>\<open>get\<close> and the string methods are total on these values), so
  they hand on what the next level gives.
\<close>

definition validate_format_shallow_exc :: "pyval \<Rightarrow> exn + datetime" where
  "validate_format_shallow_exc datetime_str =
     (case datetime_str of
        PStr s \<Rightarrow>
          if s = [] then Inl (ValueError ''Empty datetime string'')
          else (case strptime s of
                  Inr dt \<Rightarrow> Inr dt
                | Inl e \<Rightarrow> Inl (ValueError (''Failed to parse datetime: '' @ e)))
      | _ \<Rightarrow> Inl (TypeError (''Expected string, got '' @ type_name datetime_str)))"

definition parse_datetime_shallow_exc :: "string \<Rightarrow> exn + datetime" where
  "parse_datetime_shallow_exc timestamp_str =
     (let normalized = join '' '' (split timestamp_str);
          cleaned = replace ''|'' '' '' (replace '';'' [] (replace '','' [] normalized));
          cleaned = join '' '' (split cleaned);
          temp = lower (title cleaned);
          parts = split temp;
          rejoined = join '' '' parts
      in validate_format_shallow_exc (PStr rejoined))"

definition parse_message_shallow_exc :: "pyval \<Rightarrow> exn + datetime" where
  "parse_message_shallow_exc message =
     (let msg_str = (if \<not> isinstance_dict message then str message else []);
          timestamp = (case message of PDict d \<Rightarrow> dict_get d ''timestamp'' (PStr []) | _ \<Rightarrow> PStr []);
          timestamp_str = (if timestamp \<noteq> PNone then str timestamp else []);
          cleaned = replace [CHR 0x0D] '' '' (replace [CHR 0x0A] '' '' (replace [CHR 0x09] '' ''
                      (strip timestamp_str)));
          cleaned = join '' '' (split cleaned);
          cleaned = strip_chars [CHR 0x27] (strip_chars [CHR 0x22] cleaned)
      in parse_datetime_shallow_exc cleaned)"

definition validate_format_deep_exc :: "pyval \<Rightarrow> exn + datetime" where
  "validate_format_deep_exc datetime_str =
     (case datetime_str of
        PStr s \<Rightarrow>
          if s = [] then Inl (ValueError ''Empty datetime string'')
          else (case strptime s of
                  Inr dt \<Rightarrow> Inr dt
                | Inl e \<Rightarrow> Inl (ValueError (''Failed to parse datetime: '' @ e)))
      | _ \<Rightarrow> Inl (TypeError (''Expected string, got '' @ type_name datetime_str)))"

definition parse_datetime_deep_exc :: "string \<Rightarrow> exn + datetime" where
  "parse_datetime_deep_exc timestamp_str =
     (let normalized = join '' '' (split timestamp_str);
          cleaned = replace ''|'' '' '' (replace '';'' [] (replace '','' [] normalized));
          cleaned = join '' '' (split cleaned);
          temp = lower (title cleaned);
          parts = split temp;
          rejoined = join '' '' parts
      in validate_format_deep_exc (PStr rejoined))"

definition parse_message_deep_exc :: "pyval \<Rightarrow> exn + datetime" where
  "parse_message_deep_exc message =
     (let timestamp = (case message of PDict d \<Rightarrow> dict_get d ''timestamp'' (PStr []) | _ \<Rightarrow> PStr []);
          timestamp_str = (if timestamp \<noteq> PNone then str timestamp else []);
          normalized = strip timestamp_str;
          cleaned = replace [CHR 0x0D] '' '' (replace [CHR 0x0A] '' '' (replace [CHR 0x09] '' ''
                      normalized))
      in parse_datetime_deep_exc cleaned)"

definition validate_message_deep_exc :: "pyval \<Rightarrow> exn + datetime" where
  "validate_message_deep_exc message =
     (let msg_dict = (case message of PDict d \<Rightarrow> d | _ \<Rightarrow> []);
          str_values = map str (filter (\<lambda>v. v \<noteq> PNone) (map snd msg_dict));
          concatenated = join '' '' str_values;
          processed = lower (upper (lower (strip concatenated)))
      in parse_message_deep_exc (PDict msg_dict))"

definition process_batch_deep_exc :: "pyval \<Rightarrow> exn + datetime" where
  "process_batch_deep_exc message =
     (let msg_str = str message;
          processed = replace ''  '' '' '' (strip msg_str);
          char_count = length processed;
          normalized = lower (upper (lower processed))
      in validate_message_deep_exc message)"

fun loop_shallow_exc :: "results \<Rightarrow> test_case list \<Rightarrow> results" where
  "loop_shallow_exc results [] = results"
| "loop_shallow_exc results (test_case # rest) =
     (case (case getitem test_case ''message'' of
              Inl e \<Rightarrow> Inl e
            | Inr message \<Rightarrow> parse_message_shallow_exc message) of
        Inr result \<Rightarrow> loop_shallow_exc (results\<lparr>success := success results + 1\<rparr>) rest
      | Inl e \<Rightarrow>
          loop_shallow_exc
            (results\<lparr>failure := failure results + 1, errors := errors results @ [exn_name e]\<rparr>) rest)"

definition run_shallow_exc :: "test_case list \<Rightarrow> results" where
  "run_shallow_exc test_cases = loop_shallow_exc \<lparr>success = 0, failure = 0, errors = []\<rparr> test_cases"

fun loop_deep_exc :: "results \<Rightarrow> test_case list \<Rightarrow> results" where
  "loop_deep_exc results [] = results"
| "loop_deep_exc results (test_case # rest) =
     (case (case getitem test_case ''message'' of
              Inl e \<Rightarrow> Inl e
            | Inr message \<Rightarrow> process_batch_deep_exc message) of
        Inr result \<Rightarrow> loop_deep_exc (results\<lparr>success := success results + 1\<rparr>) rest
      | Inl e \<Rightarrow>
          loop_deep_exc
            (results\<lparr>failure := failure results + 1, errors := errors results @ [exn_name e]\<rparr>) rest)"

definition run_deep_exc :: "test_case list \<Rightarrow> results" where
  "run_deep_exc test_cases = loop_deep_exc \<lparr>success = 0, failure = 0, errors = []\<rparr> test_cases"

section \<open>Paired-return strategy (\<^verbatim>\<open>benchmark_tuple.py\<close>)\<close>

text \<open>
  Every function returns the pair \<^verbatim>\<open>(result, err)\<close>; \<open>None\<close> is Python's \<^verbatim>\<open>None\<close>.
\<close>

definition validate_format_shallow_tuple :: "pyval \<Rightarrow> datetime option \<times> exn option" where
  "validate_format_shallow_tuple datetime_str =
     (case datetime_str of
        PStr s \<Rightarrow>
          if s = [] then (None, Some (ValueError ''Empty datetime string''))
          else (case strptime s of
                  Inr dt \<Rightarrow> (Some dt, None)
                | Inl e \<Rightarrow> (None, Some (ValueError (''Failed to parse datetime: '' @ e))))
      | _ \<Rightarrow> (None, Some (TypeError (''Expected string, got '' @ type_name datetime_str))))"

definition parse_datetime_shallow_tuple :: "string \<Rightarrow> datetime option \<times> exn option" where
  "parse_datetime_shallow_tuple timestamp_str =
     (let normalized = join '' '' (split timestamp_str);
          cleaned = replace ''|'' '' '' (replace '';'' [] (replace '','' [] normalized));
          cleaned = join '' '' (split cleaned);
          temp = lower (title cleaned);
          parts = split temp;
          rejoined = join '' '' parts;
          (result, err) = validate_format_shallow_tuple (PStr rejoined)
      in if err \<noteq> None then (None, err) else (result, None))"

definition parse_message_shallow_tuple :: "pyval \<Rightarrow> datetime option \<times> exn option" where
  "parse_message_shallow_tuple message =
     (let msg_str = (if \<not> isinstance_dict message then str message else []);
          timestamp = (case message of PDict d \<Rightarrow> dict_get d ''timestamp'' (PStr []) | _ \<Rightarrow> PStr []);
          timestamp_str = (if timestamp \<noteq> PNone then str timestamp else []);
          cleaned = replace [CHR 0x0D] '' '' (replace [CHR 0x0A] '' '' (replace [CHR 0x09] '' ''
                      (strip timestamp_str)));
          cleaned = join '' '' (split cleaned);
          cleaned = strip_chars [CHR 0x27] (strip_chars [CHR 0x22] cleaned);
          (result, err) = parse_datetime_shallow_tuple cleaned
      in if err \<noteq> None then (None, err) else (result, None))"

definition validate_format_deep_tuple :: "pyval \<Rightarrow> datetime option \<times> exn option" where
  "validate_format_deep_tuple datetime_str =
     (case datetime_str of
        PStr s \<Rightarrow>
          if s = [] then (None, Some (ValueError ''Empty datetime string''))
          else (case strptime s of
                  Inr dt \<Rightarrow> (Some dt, None)
                | Inl e \<Rightarrow> (None, Some (ValueError (''Failed to parse datetime: '' @ e))))
      | _ \<Rightarrow> (None, Some (TypeError (''Expected string, got '' @ type_name datetime_str))))"

definition parse_datetime_deep_tuple :: "string \<Rightarrow> datetime option \<times> exn option" where
  "parse_datetime_deep_tuple timestamp_str =
     (let normalized = join '' '' (split timestamp_str);
          cleaned = replace ''|'' '' '' (replace '';'' [] (replace '','' [] normalized));
          cleaned = join '' '' (split cleaned);
          temp = lower (title cleaned);
          parts = split temp;
          rejoined = join '' '' parts;
          (result, err) = validate_format_deep_tuple (PStr rejoined)
      in if err \<noteq> None then (None, err) else (result, None))"

definition parse_message_deep_tuple :: "pyval \<Rightarrow> datetime option \<times> exn option" where
  "parse_message_deep_tuple message =
     (let timestamp = (case message of PDict d \<Rightarrow> dict_get d ''timestamp'' (PStr []) | _ \<Rightarrow> PStr []);
          timestamp_str = (if timestamp \<noteq> PNone then str timestamp else []);
          normalized = strip timestamp_str;
          cleaned = replace [CHR 0x0D] '' '' (replace [CHR 0x0A] '' '' (replace [CHR 0x09] '' ''
                      normalized));
          (result, err) = parse_datetime_deep_tuple cleaned
      in if err \<noteq> None then (None, err) else (result, None))"

definition validate_message_deep_tuple :: "pyval \<Rightarrow> datetime option \<times> exn option" where
  "validate_message_deep_tuple message =
     (let msg_dict = (case message of PDict d \<Rightarrow> d | _ \<Rightarrow> []);
          str_values = map str (filter (\<lambda>v. v \<noteq> PNone) (map snd msg_dict));
          concatenated = join '' '' str_values;
          processed = lower (upper (lower (strip concatenated)));
          (result, err) = parse_message_deep_tuple (PDict msg_dict)
      in if err \<noteq> None then (None, err) else (result, None))"

definition process_batch_deep_tuple :: "pyval \<Rightarrow> datetime option \<times> exn option" where
  "process_batch_deep_tuple message =
     (let msg_str = str message;
          processed = replace ''  '' '' '' (strip msg_str);
          char_count = length processed;
          normalized = lower (upper (lower processed));
          (result, err) = validate_message_deep_tuple message
      in if err \<noteq> None then (None, err) else (result, None))"

fun loop_shallow_tuple :: "results \<Rightarrow> test_case list \<Rightarrow> exn + results" where
  "loop_shallow_tuple results [] = Inr results"
| "loop_shallow_tuple results (test_case # rest) =
     (case getitem test_case ''message'' of
        Inl e \<Rightarrow> Inl e
      | Inr message \<Rightarrow>
          (let (result, err) = parse_message_shallow_tuple message
           in case err of
                Some e \<Rightarrow>
                  loop_shallow_tuple
                    (results\<lparr>failure := failure results + 1,
                             errors := errors results @ [exn_name e]\<rparr>) rest
              | None \<Rightarrow> loop_shallow_tuple (results\<lparr>success := success results + 1\<rparr>) rest))"

definition run_shallow_tuple :: "test_case list \<Rightarrow> exn + results" where
  "run_shallow_tuple test_cases = loop_shallow_tuple \<lparr>success = 0, failure = 0, errors = []\<rparr> test_cases"

fun loop_deep_tuple :: "results \<Rightarrow> test_case list \<Rightarrow> exn + results" where
  "loop_deep_tuple results [] = Inr results"
| "loop_deep_tuple results (test_case # rest) =
     (case getitem test_case ''message'' of
        Inl e \<Rightarrow> Inl e
      | Inr message \<Rightarrow>
          (let (result, err) = process_batch_deep_tuple message
           in case err of
                Some e \<Rightarrow>
                  loop_deep_tuple
                    (results\<lparr>failure := failure results + 1,
                             errors := errors results @ [exn_name e]\<rparr>) rest
              | None \<Rightarrow> loop_deep_tuple (results\<lparr>success := success results + 1\<rparr>) rest))"

definition run_deep_tuple :: "test_case list \<Rightarrow> exn + results" where
  "run_deep_tuple test_cases = loop_deep_tuple \<lparr>success = 0, failure = 0, errors = []\<rparr> test_cases"

section \<open>Tagged-union strategy (\<^verbatim>\<open>benchmark_union.py\<close>)\<close>

text \<open>
  Every function returns one object, a \<^verbatim>\<open>datetime\<close> or an exception instance;
  \<^verbatim>\<open>isinstance(result, Exception)\<close> tells them apart.
\<close>

datatype union_result = Datetime datetime | Exception exn

fun isinstance_exception :: "union_result \<Rightarrow> bool" where
  "isinstance_exception (Exception _) = True"
| "isinstance_exception (Datetime _) = False"

definition validate_format_shallow_union :: "pyval \<Rightarrow> union_result" where
  "validate_format_shallow_union datetime_str =
     (case datetime_str of
        PStr s \<Rightarrow>
          if s = [] then Exception (ValueError ''Empty datetime string'')
          else (case strptime s of
                  Inr dt \<Rightarrow> Datetime dt
                | Inl e \<Rightarrow> Exception (ValueError (''Failed to parse datetime: '' @ e)))
      | _ \<Rightarrow> Exception (TypeError (''Expected string, got '' @ type_name datetime_str)))"

definition parse_datetime_shallow_union :: "string \<Rightarrow> union_result" where
  "parse_datetime_shallow_union timestamp_str =
     (let normalized = join '' '' (split timestamp_str);
          cleaned = replace ''|'' '' '' (replace '';'' [] (replace '','' [] normalized));
          cleaned = join '' '' (split cleaned);
          temp = lower (title cleaned);
          parts = split temp;
          rejoined = join '' '' parts;
          result = validate_format_shallow_union (PStr rejoined)
      in if isinstance_exception result then result else result)"

definition parse_message_shallow_union :: "pyval \<Rightarrow> union_result" where
  "parse_message_shallow_union message =
     (let msg_str = (if \<not> isinstance_dict message then str message else []);
          timestamp = (case message of PDict d \<Rightarrow> dict_get d ''timestamp'' (PStr []) | _ \<Rightarrow> PStr []);
          timestamp_str = (if timestamp \<noteq> PNone then str timestamp else []);
          cleaned = replace [CHR 0x0D] '' '' (replace [CHR 0x0A] '' '' (replace [CHR 0x09] '' ''
                      (strip timestamp_str)));
          cleaned = join '' '' (split cleaned);
          cleaned = strip_chars [CHR 0x27] (strip_chars [CHR 0x22] cleaned);
          result = parse_datetime_shallow_union cleaned
      in if isinstance_exception result then result else result)"

definition validate_format_deep_union :: "pyval \<Rightarrow> union_result" where
  "validate_format_deep_union datetime_str =
     (case datetime_str of
        PStr s \<Rightarrow>
          if s = [] then Exception (ValueError ''Empty datetime string'')
          else (case strptime s of
                  Inr dt \<Rightarrow> Datetime dt
                | Inl e \<Rightarrow> Exception (ValueError (''Failed to parse datetime: '' @ e)))
      | _ \<Rightarrow> Exception (TypeError (''Expected string, got '' @ type_name datetime_str)))"

definition parse_datetime_deep_union :: "string \<Rightarrow> union_result" where
  "parse_datetime_deep_union timestamp_str =
     (let normalized = join '' '' (split timestamp_str);
          cleaned = replace ''|'' '' '' (replace '';'' [] (replace '','' [] normalized));
          cleaned = join '' '' (split cleaned);
          temp = lower (title cleaned);
          parts = split temp;
          rejoined = join '' '' parts;
          result = validate_format_deep_union (PStr rejoined)
      in if isinstance_exception result then result else result)"

definition parse_message_deep_union :: "pyval \<Rightarrow> union_result" where
  "parse_message_deep_union message =
     (let timestamp = (case message of PDict d \<Rightarrow> dict_get d ''timestamp'' (PStr []) | _ \<Rightarrow> PStr []);
          timestamp_str = (if timestamp \<noteq> PNone then str timestamp else []);
          normalized = strip timestamp_str;
          cleaned = replace [CHR 0x0D] '' '' (replace [CHR 0x0A] '' '' (replace [CHR 0x09] '' ''
                      normalized));
          result = parse_datetime_deep_union cleaned
      in if isinstance_exception result then result else result)"

definition validate_message_deep_union :: "pyval \<Rightarrow> union_result" where
  "validate_message_deep_union message =
     (let msg_dict = (case message of PDict d \<Rightarrow> d | _ \<Rightarrow> []);
          str_values = map str (filter (\<lambda>v. v \<noteq> PNone) (map snd msg_dict));
          concatenated = join '' '' str_values;
          processed = lower (upper (lower (strip concatenated)));
          result = parse_message_deep_union (PDict msg_dict)
      in if isinstance_exception result then result else result)"

definition process_batch_deep_union :: "pyval \<Rightarrow> union_result" where
  "process_batch_deep_union message =
     (let msg_str = str message;
          processed = replace ''  '' '' '' (strip msg_str);
          char_count = length processed;
          normalized = lower (upper (lower processed));
          result = validate_message_deep_union message
      in if isinstance_exception result then result else result)"

fun loop_shallow_union :: "results \<Rightarrow> test_case list \<Rightarrow> exn + results" where
  "loop_shallow_union results [] = Inr results"
| "loop_shallow_union results (test_case # rest) =
     (case getitem test_case ''message'' of
        Inl e \<Rightarrow> Inl e
      | Inr message \<Rightarrow>
          (case parse_message_shallow_union message of
             Exception e \<Rightarrow>
               loop_shallow_union
                 (results\<lparr>failure := failure results + 1,
                          errors := errors results @ [exn_name e]\<rparr>) rest
           | Datetime dt \<Rightarrow> loop_shallow_union (results\<lparr>success := success results + 1\<rparr>) rest))"

definition run_shallow_union :: "test_case list \<Rightarrow> exn + results" where
  "run_shallow_union test_cases = loop_shallow_union \<lparr>success = 0, failure = 0, errors = []\<rparr> test_cases"

fun loop_deep_union :: "results \<Rightarrow> test_case list \<Rightarrow> exn + results" where
  "loop_deep_union results [] = Inr results"
| "loop_deep_union results (test_case # rest) =
     (case getitem test_case ''message'' of
        Inl e \<Rightarrow> Inl e
      | Inr message \<Rightarrow>
          (case process_batch_deep_union message of
             Exception e \<Rightarrow>
               loop_deep_union
                 (results\<lparr>failure := failure results + 1,
                          errors := errors results @ [exn_name e]\<rparr>) rest
           | Datetime dt \<Rightarrow> loop_deep_union (results\<lparr>success := success results + 1\<rparr>) rest))"

definition run_deep_union :: "test_case list \<Rightarrow> exn + results" where
  "run_deep_union test_cases = loop_deep_union \<lparr>success = 0, failure = 0, errors = []\<rparr> test_cases"

section \<open>Per-case classification of the runners\<close>

text \<open>
  What a runner records for one case: a success, or a failure with the name of the
  exception's class.  The three functions are the three tests of the runners: the
  \<^verbatim>\<open>except Exception as e\<close> clause, \<^verbatim>\<open>err is not None\<close>, and
  \<^verbatim>\<open>isinstance(result, Exception)\<close>.
\<close>

datatype outcome = Succeeded | Failed string

fun outcome_exc :: "exn + datetime \<Rightarrow> outcome" where
  "outcome_exc (Inr result) = Succeeded"
| "outcome_exc (Inl e) = Failed (exn_name e)"

fun outcome_tuple :: "datetime option \<times> exn option \<Rightarrow> outcome" where
  "outcome_tuple (result, Some e) = Failed (exn_name e)"
| "outcome_tuple (result, None) = Succeeded"

fun outcome_union :: "union_result \<Rightarrow> outcome" where
  "outcome_union (Exception e) = Failed (exn_name e)"
| "outcome_union (Datetime dt) = Succeeded"

fun tally :: "results \<Rightarrow> outcome \<Rightarrow> results" where
  "tally results Succeeded = results\<lparr>success := success results + 1\<rparr>"
| "tally results (Failed name) =
     results\<lparr>failure := failure results + 1, errors := errors results @ [name]\<rparr>"

text \<open>The pair invariant of the paired-return strategy: exactly one slot is \<open>None\<close>.\<close>

fun one_slot :: "datetime option \<times> exn option \<Rightarrow> bool" where
  "one_slot (Some dt, None) = True"
| "one_slot (None, Some e) = True"
| "one_slot (Some dt, Some e) = False"
| "one_slot (None, None) = False"

section \<open>Statistics and report (\<^verbatim>\<open>run_benchmarks.py\<close>)\<close>

text \<open>
  Times are Python floats; they are modelled as real numbers, so \<open>/\<close> below is the
  exact quotient.  Python's true division raises \<^verbatim>\<open>ZeroDivisionError\<close> on a zero
  divisor.
\<close>

definition truediv :: "real \<Rightarrow> int \<Rightarrow> exn + real" where
  "truediv a b = (if b = 0 then Inl (ZeroDivisionError ''float division by zero'')
                  else Inr (a / real_of_int b))"

text \<open>\<^verbatim>\<open>pattern in func_name\<close> on strings: \<open>pattern\<close> occurs as a contiguous part.\<close>

fun contains :: "string \<Rightarrow> string \<Rightarrow> bool" where
  "contains pattern [] = (pattern = [])"
| "contains pattern (c # cs) = (take (length pattern) (c # cs) = pattern \<or> contains pattern cs)"

record function_time =
  ncalls :: int
  tottime :: real
  cumtime :: real
  percall_tot :: real
  percall_cum :: real

text \<open>
  A key of \<^verbatim>\<open>stats.stats\<close> is (file, line, function name); its value is
  (primitive calls, calls, total time, cumulative time, callers).
\<close>

type_synonym func_key = "string \<times> int \<times> string"
type_synonym 'c raw_stat = "int \<times> int \<times> real \<times> real \<times> 'c"

fun init_times :: "(string \<rightharpoonup> function_time) \<Rightarrow> string list \<Rightarrow> (string \<rightharpoonup> function_time)" where
  "init_times function_times [] = function_times"
| "init_times function_times (func_pattern # rest) =
     init_times
       (function_times(func_pattern \<mapsto>
          \<lparr>ncalls = 0, tottime = 0, cumtime = 0, percall_tot = 0, percall_cum = 0\<rparr>))
       rest"

text \<open>The inner loop: the first pattern found in the function's name, then \<^verbatim>\<open>break\<close>.\<close>

fun match_patterns ::
  "(string \<rightharpoonup> function_time) \<Rightarrow> string \<Rightarrow> int \<Rightarrow> real \<Rightarrow> real \<Rightarrow> string list
     \<Rightarrow> exn + (string \<rightharpoonup> function_time)" where
  "match_patterns function_times func_name nc tt ct [] = Inr function_times"
| "match_patterns function_times func_name nc tt ct (pattern # rest) =
     (if contains pattern func_name then
        (case (if nc > 0 then truediv tt nc else Inr 0) of
           Inl e \<Rightarrow> Inl e
         | Inr pt \<Rightarrow>
             (case (if nc > 0 then truediv ct nc else Inr 0) of
                Inl e \<Rightarrow> Inl e
              | Inr pc \<Rightarrow>
                  Inr (function_times(pattern \<mapsto>
                         \<lparr>ncalls = nc, tottime = tt, cumtime = ct,
                          percall_tot = pt, percall_cum = pc\<rparr>))))
      else match_patterns function_times func_name nc tt ct rest)"

fun stats_loop ::
  "(string \<rightharpoonup> function_time) \<Rightarrow> string list \<Rightarrow> (func_key \<times> 'c raw_stat) list
     \<Rightarrow> exn + (string \<rightharpoonup> function_time)" where
  "stats_loop function_times func_patterns [] = Inr function_times"
| "stats_loop function_times func_patterns ((func, (cc, nc, tt, ct, callers)) # rest) =
     (let func_name = snd (snd func)
      in case match_patterns function_times func_name nc tt ct func_patterns of
           Inl e \<Rightarrow> Inl e
         | Inr function_times' \<Rightarrow> stats_loop function_times' func_patterns rest)"

definition extract_function_stats ::
  "(func_key \<times> 'c raw_stat) list \<Rightarrow> string list \<Rightarrow> exn + (string \<rightharpoonup> function_time)" where
  "extract_function_stats stats func_patterns =
     stats_loop (init_times Map.empty func_patterns) func_patterns stats"

text \<open>
  \<^verbatim>\<open>profile_function\<close> with the two readings of the clock as arguments, and the
  \<^verbatim>\<open>us_per_test\<close> entry that \<^verbatim>\<open>save_results_json\<close> writes for a profile (the same
  expression is printed by \<^verbatim>\<open>print_benchmark_result\<close>, \<^verbatim>\<open>save_results_text\<close> and
  the comparison table).
\<close>

record 'r profile_data =
  result :: 'r
  total_time :: real

definition profile_function ::
  "(test_case list \<Rightarrow> 'r) \<Rightarrow> test_case list \<Rightarrow> real \<Rightarrow> real \<Rightarrow> 'r profile_data" where
  "profile_function func test_cases start_time end_time =
     \<lparr>result = func test_cases, total_time = end_time - start_time\<rparr>"

definition us_per_test :: "'r profile_data \<Rightarrow> real" where
  "us_per_test profile = (total_time profile / 1000) * 1000000"

section \<open>One result, three shapes\<close>

text \<open>
  The result of a raising function, written as the pair and as the union object that the
  other two strategies return for it.
\<close>

fun as_pair :: "exn + datetime \<Rightarrow> datetime option \<times> exn option" where
  "as_pair (Inr dt) = (Some dt, None)"
| "as_pair (Inl e) = (None, Some e)"

fun as_union :: "exn + datetime \<Rightarrow> union_result" where
  "as_union (Inr dt) = Datetime dt"
| "as_union (Inl e) = Exception e"

section \<open>Sample data\<close>

text \<open>The timestamp 2024-01-15T10:30:45.\<close>

definition sample_datetime :: datetime where
  "sample_datetime = \<lparr>year = 2024, month = 1, day = 15, hour = 10, minute = 30, second = 45\<rparr>"

text \<open>
  A batch of two test cases as the generator writes them: a valid timestamp, and a
  timestamp that is a number.
\<close>

definition sample_batch :: "test_case list" where
  "sample_batch =
     [[(''id'', PInt 0),
       (''message'', PDict [(''timestamp'', PStr ''2024-01-15 10:30:45''), (''user'', PStr ''user_0'')]),
       (''expected_valid'', PBool True)],
      [(''id'', PInt 1),
       (''message'', PDict [(''timestamp'', PInt 123456)]),
       (''expected_valid'', PBool False),
       (''error_type'', PStr ''type_error'')]]"

text \<open>
  Two rows of profiler statistics and two stage patterns: one stage that was called a
  thousand times, one that does not occur in the statistics.
\<close>

definition sample_stats :: "(func_key \<times> unit raw_stat) list" where
  "sample_stats =
     [((''benchmark_tuple.py'', 15, ''validate_format_shallow_tuple''), (1000, 1000, 2, 6, ())),
      ((''~'', 0, ''<method 'split' of 'str' objects>''), (4000, 4000, 1, 1, ()))]"

definition sample_patterns :: "string list" where
  "sample_patterns = [''validate_format_shallow_tuple'', ''parse_datetime_shallow_tuple'']"

text \<open>
  The invariant of the statistics dictionary: in every entry the two per-call averages
  are the guarded quotients of the entry's own times and call count.
\<close>

definition averages_ok :: "(string \<rightharpoonup> function_time) \<Rightarrow> bool" where
  "averages_ok ft \<longleftrightarrow>
     (\<forall>p e. ft p = Some e \<longrightarrow>
        percall_tot e = (if 0 < ncalls e then tottime e / real_of_int (ncalls e) else 0)
        \<and> percall_cum e = (if 0 < ncalls e then cumtime e / real_of_int (ncalls e) else 0))"

section \<open>Shared text of the two depths\<close>

text \<open>
  Both \<^verbatim>\<open>parse_message_shallow_*\<close> and \<^verbatim>\<open>parse_message_deep_*\<close> start from the
  same text, \<^verbatim>\<open>timestamp_str\<close>; \<open>collapsed_text\<close> is the value of \<^verbatim>\<open>cleaned\<close> in
  the shallow function just before it strips the quote characters.
\<close>

definition timestamp_text :: "pyval \<Rightarrow> string" where
  "timestamp_text message =
     (let timestamp = (case message of PDict d \<Rightarrow> dict_get d ''timestamp'' (PStr []) | _ \<Rightarrow> PStr [])
      in if timestamp \<noteq> PNone then str timestamp else [])"

definition collapsed_text :: "pyval \<Rightarrow> string" where
  "collapsed_text message =
     join '' '' (split (replace [CHR 0x0D] '' '' (replace [CHR 0x0A] '' '' (replace [CHR 0x09] '' ''
       (strip (timestamp_text message))))))"

text \<open>
  The characters a text accepted by \<open>strptime\<close> is made of, and the property of a
  matcher that it consumes only such characters.
\<close>

definition format_char :: "char \<Rightarrow> bool" where
  "format_char c \<longleftrightarrow> isdigit c \<or> c = CHR ''-'' \<or> c = CHR '':'' \<or> isspace c"

definition eats_format_chars :: "'a matcher \<Rightarrow> bool" where
  "eats_format_chars p \<longleftrightarrow>
     (\<forall>s v r. (v, r) \<in> set (p s) \<longrightarrow> (\<exists>pre. s = pre @ r \<and> (\<forall>c \<in> set pre. format_char c)))"

definition is_quote :: "char \<Rightarrow> bool" where
  "is_quote c \<longleftrightarrow> c = CHR 0x22 \<or> c = CHR 0x27"

text \<open>The message \<^verbatim>\<open>{"timestamp": "'2024-01-15 10:30:45'"}\<close>.\<close>

definition quoted_message :: pyval where
  "quoted_message = PDict [(''timestamp'', PStr ([CHR 0x27] @ ''2024-01-15 10:30:45'' @ [CHR 0x27]))]"

section \<open>The three strategies compute the same result\<close>

lemma forward_pair:
  "(case as_pair r of (res, err) \<Rightarrow> if \<exists>e. err = Some e then (None, err) else (res, None))
     = as_pair r"
  by (cases r) simp_all

lemma outcome_as_pair: "outcome_tuple (as_pair r) = outcome_exc r"
  by (cases r) simp_all

lemma outcome_as_union: "outcome_union (as_union r) = outcome_exc r"
  by (cases r) simp_all

lemma one_slot_as_pair: "one_slot (as_pair r)"
  by (cases r) simp_all

lemma validate_format_shallow_tuple_exc:
  "validate_format_shallow_tuple v = as_pair (validate_format_shallow_exc v)"
  by (simp add: validate_format_shallow_tuple_def validate_format_shallow_exc_def split: pyval.splits sum.splits)

lemma parse_datetime_shallow_tuple_exc:
  "parse_datetime_shallow_tuple s = as_pair (parse_datetime_shallow_exc s)"
  by (simp add: parse_datetime_shallow_tuple_def parse_datetime_shallow_exc_def Let_def validate_format_shallow_tuple_exc forward_pair)

lemma parse_message_shallow_tuple_exc:
  "parse_message_shallow_tuple m = as_pair (parse_message_shallow_exc m)"
  by (simp add: parse_message_shallow_tuple_def parse_message_shallow_exc_def Let_def parse_datetime_shallow_tuple_exc forward_pair)

lemma validate_format_deep_tuple_exc:
  "validate_format_deep_tuple v = as_pair (validate_format_deep_exc v)"
  by (simp add: validate_format_deep_tuple_def validate_format_deep_exc_def split: pyval.splits sum.splits)

lemma parse_datetime_deep_tuple_exc:
  "parse_datetime_deep_tuple s = as_pair (parse_datetime_deep_exc s)"
  by (simp add: parse_datetime_deep_tuple_def parse_datetime_deep_exc_def Let_def validate_format_deep_tuple_exc forward_pair)

lemma parse_message_deep_tuple_exc:
  "parse_message_deep_tuple m = as_pair (parse_message_deep_exc m)"
  by (simp add: parse_message_deep_tuple_def parse_message_deep_exc_def Let_def parse_datetime_deep_tuple_exc forward_pair)

lemma validate_message_deep_tuple_exc:
  "validate_message_deep_tuple m = as_pair (validate_message_deep_exc m)"
  by (simp add: validate_message_deep_tuple_def validate_message_deep_exc_def Let_def parse_message_deep_tuple_exc forward_pair)

lemma process_batch_deep_tuple_exc:
  "process_batch_deep_tuple m = as_pair (process_batch_deep_exc m)"
  by (simp add: process_batch_deep_tuple_def process_batch_deep_exc_def Let_def validate_message_deep_tuple_exc forward_pair)

lemma validate_format_shallow_union_exc:
  "validate_format_shallow_union v = as_union (validate_format_shallow_exc v)"
  by (simp add: validate_format_shallow_union_def validate_format_shallow_exc_def split: pyval.splits sum.splits)

lemma parse_datetime_shallow_union_exc:
  "parse_datetime_shallow_union s = as_union (parse_datetime_shallow_exc s)"
  by (simp add: parse_datetime_shallow_union_def parse_datetime_shallow_exc_def Let_def validate_format_shallow_union_exc)

lemma parse_message_shallow_union_exc:
  "parse_message_shallow_union m = as_union (parse_message_shallow_exc m)"
  by (simp add: parse_message_shallow_union_def parse_message_shallow_exc_def Let_def parse_datetime_shallow_union_exc)

lemma validate_format_deep_union_exc:
  "validate_format_deep_union v = as_union (validate_format_deep_exc v)"
  by (simp add: validate_format_deep_union_def validate_format_deep_exc_def split: pyval.splits sum.splits)

lemma parse_datetime_deep_union_exc:
  "parse_datetime_deep_union s = as_union (parse_datetime_deep_exc s)"
  by (simp add: parse_datetime_deep_union_def parse_datetime_deep_exc_def Let_def validate_format_deep_union_exc)

lemma parse_message_deep_union_exc:
  "parse_message_deep_union m = as_union (parse_message_deep_exc m)"
  by (simp add: parse_message_deep_union_def parse_message_deep_exc_def Let_def parse_datetime_deep_union_exc)

lemma validate_message_deep_union_exc:
  "validate_message_deep_union m = as_union (validate_message_deep_exc m)"
  by (simp add: validate_message_deep_union_def validate_message_deep_exc_def Let_def parse_message_deep_union_exc)

lemma process_batch_deep_union_exc:
  "process_batch_deep_union m = as_union (process_batch_deep_exc m)"
  by (simp add: process_batch_deep_union_def process_batch_deep_exc_def Let_def validate_message_deep_union_exc)

subsection \<open>The runners tally the classification of each case\<close>

lemma loop_shallow_exc_step:
  "loop_shallow_exc r (tc # rest) =
     loop_shallow_exc
       (tally r (case getitem tc ''message'' of
                   Inl e \<Rightarrow> Failed (exn_name e)
                 | Inr m \<Rightarrow> outcome_exc (parse_message_shallow_exc m))) rest"
  by (auto split: sum.splits)

lemma loop_shallow_tuple_step:
  "loop_shallow_tuple r (tc # rest) =
     (case getitem tc ''message'' of
        Inl e \<Rightarrow> Inl e
      | Inr m \<Rightarrow> loop_shallow_tuple (tally r (outcome_tuple (parse_message_shallow_tuple m))) rest)"
  by (simp split: sum.splits prod.splits option.splits)

lemma loop_shallow_union_step:
  "loop_shallow_union r (tc # rest) =
     (case getitem tc ''message'' of
        Inl e \<Rightarrow> Inl e
      | Inr m \<Rightarrow> loop_shallow_union (tally r (outcome_union (parse_message_shallow_union m))) rest)"
  by (simp split: sum.splits union_result.splits)

lemma loop_deep_exc_step:
  "loop_deep_exc r (tc # rest) =
     loop_deep_exc
       (tally r (case getitem tc ''message'' of
                   Inl e \<Rightarrow> Failed (exn_name e)
                 | Inr m \<Rightarrow> outcome_exc (process_batch_deep_exc m))) rest"
  by (auto split: sum.splits)

lemma loop_deep_tuple_step:
  "loop_deep_tuple r (tc # rest) =
     (case getitem tc ''message'' of
        Inl e \<Rightarrow> Inl e
      | Inr m \<Rightarrow> loop_deep_tuple (tally r (outcome_tuple (process_batch_deep_tuple m))) rest)"
  by (simp split: sum.splits prod.splits option.splits)

lemma loop_deep_union_step:
  "loop_deep_union r (tc # rest) =
     (case getitem tc ''message'' of
        Inl e \<Rightarrow> Inl e
      | Inr m \<Rightarrow> loop_deep_union (tally r (outcome_union (process_batch_deep_union m))) rest)"
  by (simp split: sum.splits union_result.splits)

subsection \<open>Counting, and the missing \<^verbatim>\<open>"message"\<close> key\<close>

lemma loop_shallow_exc_counts:
  "success (loop_shallow_exc r tcs) + failure (loop_shallow_exc r tcs)
     = success r + failure r + length tcs"
  by (induction tcs arbitrary: r) (auto split: sum.splits)

lemma loop_shallow_exc_append:
  "loop_shallow_exc r (xs @ ys) = loop_shallow_exc (loop_shallow_exc r xs) ys"
  by (induction xs arbitrary: r) (auto split: sum.splits)

lemma loop_shallow_tuple_counts:
  "loop_shallow_tuple r tcs = Inr r' \<Longrightarrow>
     success r' + failure r' = success r + failure r + length tcs"
proof (induction tcs arbitrary: r)
  case Nil
  then show ?case by simp
next
  case (Cons tc tcs)
  then show ?case
    by (fastforce split: sum.splits prod.splits option.splits)
qed

lemma loop_shallow_tuple_keyerror:
  "map_of tc ''message'' = None \<Longrightarrow>
     loop_shallow_tuple r (pre @ tc # post) = Inl (KeyError ''message'')"
proof (induction pre arbitrary: r)
  case Nil
  then show ?case by (simp add: getitem_def)
next
  case (Cons a pre)
  then show ?case
    by (auto simp: getitem_def split: sum.splits prod.splits option.splits option.splits)
qed

lemma loop_shallow_tuple_total:
  "\<forall>tc \<in> set tcs. map_of tc ''message'' \<noteq> None \<Longrightarrow>
     loop_shallow_tuple r tcs = Inr (loop_shallow_exc r tcs)"
proof (induction tcs arbitrary: r)
  case Nil
  then show ?case by simp
next
  case (Cons tc tcs)
  then obtain m where m: "map_of tc ''message'' = Some m" by auto
  have "loop_shallow_tuple r (tc # tcs)
          = loop_shallow_tuple (tally r (outcome_tuple (parse_message_shallow_tuple m))) tcs"
    by (simp only: loop_shallow_tuple_step) (simp add: getitem_def m)
  also have "\<dots> = Inr (loop_shallow_exc (tally r (outcome_exc (parse_message_shallow_exc m))) tcs)"
    using Cons by (simp add: parse_message_shallow_tuple_exc outcome_as_pair)
  also have "loop_shallow_exc (tally r (outcome_exc (parse_message_shallow_exc m))) tcs
          = loop_shallow_exc r (tc # tcs)"
    by (simp only: loop_shallow_exc_step) (simp add: getitem_def m)
  finally show ?case .
qed

lemma loop_shallow_union_counts:
  "loop_shallow_union r tcs = Inr r' \<Longrightarrow>
     success r' + failure r' = success r + failure r + length tcs"
proof (induction tcs arbitrary: r)
  case Nil
  then show ?case by simp
next
  case (Cons tc tcs)
  then show ?case
    by (fastforce split: sum.splits union_result.splits)
qed

lemma loop_shallow_union_keyerror:
  "map_of tc ''message'' = None \<Longrightarrow>
     loop_shallow_union r (pre @ tc # post) = Inl (KeyError ''message'')"
proof (induction pre arbitrary: r)
  case Nil
  then show ?case by (simp add: getitem_def)
next
  case (Cons a pre)
  then show ?case
    by (auto simp: getitem_def split: sum.splits union_result.splits option.splits)
qed

lemma loop_shallow_union_total:
  "\<forall>tc \<in> set tcs. map_of tc ''message'' \<noteq> None \<Longrightarrow>
     loop_shallow_union r tcs = Inr (loop_shallow_exc r tcs)"
proof (induction tcs arbitrary: r)
  case Nil
  then show ?case by simp
next
  case (Cons tc tcs)
  then obtain m where m: "map_of tc ''message'' = Some m" by auto
  have "loop_shallow_union r (tc # tcs)
          = loop_shallow_union (tally r (outcome_union (parse_message_shallow_union m))) tcs"
    by (simp only: loop_shallow_union_step) (simp add: getitem_def m)
  also have "\<dots> = Inr (loop_shallow_exc (tally r (outcome_exc (parse_message_shallow_exc m))) tcs)"
    using Cons by (simp add: parse_message_shallow_union_exc outcome_as_union)
  also have "loop_shallow_exc (tally r (outcome_exc (parse_message_shallow_exc m))) tcs
          = loop_shallow_exc r (tc # tcs)"
    by (simp only: loop_shallow_exc_step) (simp add: getitem_def m)
  finally show ?case .
qed

lemma loop_deep_exc_counts:
  "success (loop_deep_exc r tcs) + failure (loop_deep_exc r tcs)
     = success r + failure r + length tcs"
  by (induction tcs arbitrary: r) (auto split: sum.splits)

lemma loop_deep_exc_append:
  "loop_deep_exc r (xs @ ys) = loop_deep_exc (loop_deep_exc r xs) ys"
  by (induction xs arbitrary: r) (auto split: sum.splits)

lemma loop_deep_tuple_counts:
  "loop_deep_tuple r tcs = Inr r' \<Longrightarrow>
     success r' + failure r' = success r + failure r + length tcs"
proof (induction tcs arbitrary: r)
  case Nil
  then show ?case by simp
next
  case (Cons tc tcs)
  then show ?case
    by (fastforce split: sum.splits prod.splits option.splits)
qed

lemma loop_deep_tuple_keyerror:
  "map_of tc ''message'' = None \<Longrightarrow>
     loop_deep_tuple r (pre @ tc # post) = Inl (KeyError ''message'')"
proof (induction pre arbitrary: r)
  case Nil
  then show ?case by (simp add: getitem_def)
next
  case (Cons a pre)
  then show ?case
    by (auto simp: getitem_def split: sum.splits prod.splits option.splits option.splits)
qed

lemma loop_deep_tuple_total:
  "\<forall>tc \<in> set tcs. map_of tc ''message'' \<noteq> None \<Longrightarrow>
     loop_deep_tuple r tcs = Inr (loop_deep_exc r tcs)"
proof (induction tcs arbitrary: r)
  case Nil
  then show ?case by simp
next
  case (Cons tc tcs)
  then obtain m where m: "map_of tc ''message'' = Some m" by auto
  have "loop_deep_tuple r (tc # tcs)
          = loop_deep_tuple (tally r (outcome_tuple (process_batch_deep_tuple m))) tcs"
    by (simp only: loop_deep_tuple_step) (simp add: getitem_def m)
  also have "\<dots> = Inr (loop_deep_exc (tally r (outcome_exc (process_batch_deep_exc m))) tcs)"
    using Cons by (simp add: process_batch_deep_tuple_exc outcome_as_pair)
  also have "loop_deep_exc (tally r (outcome_exc (process_batch_deep_exc m))) tcs
          = loop_deep_exc r (tc # tcs)"
    by (simp only: loop_deep_exc_step) (simp add: getitem_def m)
  finally show ?case .
qed

lemma loop_deep_union_counts:
  "loop_deep_union r tcs = Inr r' \<Longrightarrow>
     success r' + failure r' = success r + failure r + length tcs"
proof (induction tcs arbitrary: r)
  case Nil
  then show ?case by simp
next
  case (Cons tc tcs)
  then show ?case
    by (fastforce split: sum.splits union_result.splits)
qed

lemma loop_deep_union_keyerror:
  "map_of tc ''message'' = None \<Longrightarrow>
     loop_deep_union r (pre @ tc # post) = Inl (KeyError ''message'')"
proof (induction pre arbitrary: r)
  case Nil
  then show ?case by (simp add: getitem_def)
next
  case (Cons a pre)
  then show ?case
    by (auto simp: getitem_def split: sum.splits union_result.splits option.splits)
qed

lemma loop_deep_union_total:
  "\<forall>tc \<in> set tcs. map_of tc ''message'' \<noteq> None \<Longrightarrow>
     loop_deep_union r tcs = Inr (loop_deep_exc r tcs)"
proof (induction tcs arbitrary: r)
  case Nil
  then show ?case by simp
next
  case (Cons tc tcs)
  then obtain m where m: "map_of tc ''message'' = Some m" by auto
  have "loop_deep_union r (tc # tcs)
          = loop_deep_union (tally r (outcome_union (process_batch_deep_union m))) tcs"
    by (simp only: loop_deep_union_step) (simp add: getitem_def m)
  also have "\<dots> = Inr (loop_deep_exc (tally r (outcome_exc (process_batch_deep_exc m))) tcs)"
    using Cons by (simp add: process_batch_deep_union_exc outcome_as_union)
  also have "loop_deep_exc (tally r (outcome_exc (process_batch_deep_exc m))) tcs
          = loop_deep_exc r (tc # tcs)"
    by (simp only: loop_deep_exc_step) (simp add: getitem_def m)
  finally show ?case .
qed

section \<open>Claims\<close>

text \<open>
  The entry points of the three strategies classify every message alike, at each depth.
\<close>

lemma entry_points_classify_alike:
  "outcome_tuple (parse_message_shallow_tuple m) = outcome_exc (parse_message_shallow_exc m)
   \<and> outcome_union (parse_message_shallow_union m) = outcome_exc (parse_message_shallow_exc m)
   \<and> outcome_tuple (process_batch_deep_tuple m) = outcome_exc (process_batch_deep_exc m)
   \<and> outcome_union (process_batch_deep_union m) = outcome_exc (process_batch_deep_exc m)"
  by (simp add: parse_message_shallow_tuple_exc parse_message_shallow_union_exc
      process_batch_deep_tuple_exc process_batch_deep_union_exc outcome_as_pair outcome_as_union)

text \<open>
  C7.  Each of the eight stage functions of the paired-return strategy returns a pair
  with exactly one slot filled: a timestamp and no error, or no value and an exception.
\<close>

theorem paired_return_one_slot:
  "one_slot (validate_format_shallow_tuple v)
   \<and> one_slot (parse_datetime_shallow_tuple s)
   \<and> one_slot (parse_message_shallow_tuple m)
   \<and> one_slot (validate_format_deep_tuple v)
   \<and> one_slot (parse_datetime_deep_tuple s)
   \<and> one_slot (parse_message_deep_tuple m)
   \<and> one_slot (validate_message_deep_tuple m)
   \<and> one_slot (process_batch_deep_tuple m)"
  by (simp add: validate_format_shallow_tuple_exc parse_datetime_shallow_tuple_exc
      parse_message_shallow_tuple_exc validate_format_deep_tuple_exc
      parse_datetime_deep_tuple_exc parse_message_deep_tuple_exc
      validate_message_deep_tuple_exc process_batch_deep_tuple_exc one_slot_as_pair)

subsection \<open>Evaluation on the sample texts\<close>

lemma shallow_cleaning_sample:
  "strip_chars [CHR 0x27] (strip_chars [CHR 0x22] (join '' '' (split
     (replace [CHR 0x0D] '' '' (replace [CHR 0x0A] '' '' (replace [CHR 0x09] '' ''
        (strip ''2024-01-15 10:30:45''))))))) = ''2024-01-15 10:30:45''"
  by code_simp

lemma deep_cleaning_sample:
  "replace [CHR 0x0D] '' '' (replace [CHR 0x0A] '' '' (replace [CHR 0x09] '' ''
        (strip ''2024-01-15 10:30:45''))) = ''2024-01-15 10:30:45''"
  by code_simp

lemma parse_datetime_shallow_exc_sample:
  "parse_datetime_shallow_exc ''2024-01-15 10:30:45'' = Inr sample_datetime"
  by code_simp

lemma parse_datetime_deep_exc_sample:
  "parse_datetime_deep_exc ''2024-01-15 10:30:45'' = Inr sample_datetime"
  by code_simp

lemma parse_message_shallow_exc_sample:
  "map_of d ''timestamp'' = Some (PStr ''2024-01-15 10:30:45'') \<Longrightarrow>
     parse_message_shallow_exc (PDict d) = Inr sample_datetime"
  by (simp add: parse_message_shallow_exc_def Let_def dict_get_def shallow_cleaning_sample
      parse_datetime_shallow_exc_sample)

lemma process_batch_deep_exc_sample:
  "map_of d ''timestamp'' = Some (PStr ''2024-01-15 10:30:45'') \<Longrightarrow>
     process_batch_deep_exc (PDict d) = Inr sample_datetime"
  by (simp add: process_batch_deep_exc_def validate_message_deep_exc_def
      parse_message_deep_exc_def Let_def dict_get_def deep_cleaning_sample
      parse_datetime_deep_exc_sample)

text \<open>
  C5.  A message that is a dictionary whose \<^verbatim>\<open>"timestamp"\<close> is the text
  \<^verbatim>\<open>2024-01-15 10:30:45\<close>, whatever its other fields, is a success of every strategy
  at either depth, and the value returned is the timestamp 2024-01-15T10:30:45.
\<close>

theorem valid_timestamp_parses:
  assumes "map_of d ''timestamp'' = Some (PStr ''2024-01-15 10:30:45'')"
  shows "parse_message_shallow_exc (PDict d) = Inr sample_datetime
     \<and> process_batch_deep_exc (PDict d) = Inr sample_datetime
     \<and> parse_message_shallow_tuple (PDict d) = (Some sample_datetime, None)
     \<and> process_batch_deep_tuple (PDict d) = (Some sample_datetime, None)
     \<and> parse_message_shallow_union (PDict d) = Datetime sample_datetime
     \<and> process_batch_deep_union (PDict d) = Datetime sample_datetime"
  using assms
  by (simp add: parse_message_shallow_tuple_exc process_batch_deep_tuple_exc
      parse_message_shallow_union_exc process_batch_deep_union_exc
      parse_message_shallow_exc_sample process_batch_deep_exc_sample)

theorem valid_timestamp_parses_witness:
  "map_of [(''timestamp'', PStr ''2024-01-15 10:30:45''), (''user'', PStr ''user_0''),
           (''data'', PStr ''message content 0'')] ''timestamp''
     = Some (PStr ''2024-01-15 10:30:45'')
   \<and> parse_message_shallow_exc
         (PDict [(''timestamp'', PStr ''2024-01-15 10:30:45''), (''user'', PStr ''user_0''),
                 (''data'', PStr ''message content 0'')])
       = Inr \<lparr>year = 2024, month = 1, day = 15, hour = 10, minute = 30, second = 45\<rparr>
   \<and> process_batch_deep_union
         (PDict [(''timestamp'', PStr ''2024-01-15 10:30:45''), (''user'', PStr ''user_0''),
                 (''data'', PStr ''message content 0'')])
       = Datetime \<lparr>year = 2024, month = 1, day = 15, hour = 10, minute = 30, second = 45\<rparr>"
  using valid_timestamp_parses
    [of "[(''timestamp'', PStr ''2024-01-15 10:30:45''), (''user'', PStr ''user_0''),
          (''data'', PStr ''message content 0'')]"]
  by (simp add: sample_datetime_def)

lemma cleaning_empty:
  "split [] = []" "strip [] = []" "strip_chars cs [] = []" "replace old new [] = []"
  by (simp_all add: split_def strip_def strip_chars_def replace_def)

lemma parse_datetime_exc_empty:
  "parse_datetime_shallow_exc [] = Inl (ValueError ''Empty datetime string'')"
  "parse_datetime_deep_exc [] = Inl (ValueError ''Empty datetime string'')"
  by code_simp+

lemma parse_message_shallow_exc_non_dict:
  "\<not> isinstance_dict m \<Longrightarrow>
     parse_message_shallow_exc m = Inl (ValueError ''Empty datetime string'')"
  by (cases m) (simp_all add: parse_message_shallow_exc_def Let_def cleaning_empty
      parse_datetime_exc_empty)

lemma process_batch_deep_exc_non_dict:
  "\<not> isinstance_dict m \<Longrightarrow>
     process_batch_deep_exc m = Inl (ValueError ''Empty datetime string'')"
  by (cases m) (simp_all add: process_batch_deep_exc_def validate_message_deep_exc_def
      parse_message_deep_exc_def Let_def dict_get_def cleaning_empty parse_datetime_exc_empty)

text \<open>
  C6.  A message that is not a dictionary (\<^verbatim>\<open>None\<close>, a number, a string, a list)
  fails in every strategy at either depth with a \<^verbatim>\<open>ValueError\<close> that says the
  datetime string is empty; it is never a \<^verbatim>\<open>TypeError\<close>.
\<close>

theorem non_mapping_message_is_empty:
  assumes "\<not> isinstance_dict m"
  shows "parse_message_shallow_exc m = Inl (ValueError ''Empty datetime string'')
     \<and> process_batch_deep_exc m = Inl (ValueError ''Empty datetime string'')
     \<and> parse_message_shallow_tuple m = (None, Some (ValueError ''Empty datetime string''))
     \<and> process_batch_deep_tuple m = (None, Some (ValueError ''Empty datetime string''))
     \<and> parse_message_shallow_union m = Exception (ValueError ''Empty datetime string'')
     \<and> process_batch_deep_union m = Exception (ValueError ''Empty datetime string'')"
  using assms
  by (simp add: parse_message_shallow_tuple_exc process_batch_deep_tuple_exc
      parse_message_shallow_union_exc process_batch_deep_union_exc
      parse_message_shallow_exc_non_dict process_batch_deep_exc_non_dict)

theorem non_mapping_message_is_empty_witness:
  "\<not> isinstance_dict PNone
   \<and> parse_message_shallow_exc PNone = Inl (ValueError ''Empty datetime string'')
   \<and> process_batch_deep_tuple PNone = (None, Some (ValueError ''Empty datetime string''))
   \<and> \<not> isinstance_dict (PInt 123)
   \<and> process_batch_deep_exc (PInt 123) = Inl (ValueError ''Empty datetime string'')
   \<and> parse_message_shallow_union (PInt 123) = Exception (ValueError ''Empty datetime string'')"
  using non_mapping_message_is_empty [of PNone] non_mapping_message_is_empty [of "PInt 123"]
  by simp

lemma str_int_sample: "str (PInt 123456) = ''123456''"
  by (simp add: str_int_def dec_nat.simps digit_char_def)

lemma shallow_cleaning_digits:
  "strip_chars [CHR 0x27] (strip_chars [CHR 0x22] (join '' '' (split
     (replace [CHR 0x0D] '' '' (replace [CHR 0x0A] '' '' (replace [CHR 0x09] '' ''
        (strip ''123456''))))))) = ''123456''"
  by code_simp

lemma deep_cleaning_digits:
  "replace [CHR 0x0D] '' '' (replace [CHR 0x0A] '' '' (replace [CHR 0x09] '' ''
        (strip ''123456''))) = ''123456''"
  by code_simp

lemma parse_datetime_exc_digits:
  "outcome_exc (parse_datetime_shallow_exc ''123456'') = Failed ''ValueError''"
  "outcome_exc (parse_datetime_deep_exc ''123456'') = Failed ''ValueError''"
  by code_simp+

lemma parse_message_shallow_exc_digits:
  "map_of d ''timestamp'' = Some (PInt 123456) \<Longrightarrow>
     outcome_exc (parse_message_shallow_exc (PDict d)) = Failed ''ValueError''"
  by (simp add: parse_message_shallow_exc_def Let_def dict_get_def str_int_sample
      shallow_cleaning_digits parse_datetime_exc_digits del: str.simps)

lemma process_batch_deep_exc_digits:
  "map_of d ''timestamp'' = Some (PInt 123456) \<Longrightarrow>
     outcome_exc (process_batch_deep_exc (PDict d)) = Failed ''ValueError''"
  by (simp add: process_batch_deep_exc_def validate_message_deep_exc_def
      parse_message_deep_exc_def Let_def dict_get_def str_int_sample deep_cleaning_digits
      parse_datetime_exc_digits del: str.simps)

text \<open>
  C1, as stated, fails: for the message \<^verbatim>\<open>{"timestamp": 123456}\<close> the raising strategy
  at the shallow depth does not fail with a \<^verbatim>\<open>TypeError\<close>.  \<^verbatim>\<open>parse_message_*\<close>
  turns the payload into the text \<^verbatim>\<open>123456\<close> with \<^verbatim>\<open>str\<close> before validation sees it.
\<close>

theorem int_timestamp_not_type_error:
  "outcome_exc (parse_message_shallow_exc (PDict [(''timestamp'', PInt 123456)]))
     \<noteq> Failed ''TypeError''"
  using parse_message_shallow_exc_digits [of "[(''timestamp'', PInt 123456)]"]
  by simp

text \<open>
  C1, amended.  For a message whose \<^verbatim>\<open>"timestamp"\<close> is the integer 123456, every
  strategy at either depth fails, and the failure is a \<^verbatim>\<open>ValueError\<close> (the text
  \<^verbatim>\<open>123456\<close> does not match the format).
\<close>

theorem int_timestamp_is_value_error:
  assumes "map_of d ''timestamp'' = Some (PInt 123456)"
  shows "outcome_exc (parse_message_shallow_exc (PDict d)) = Failed ''ValueError''
     \<and> outcome_exc (process_batch_deep_exc (PDict d)) = Failed ''ValueError''
     \<and> outcome_tuple (parse_message_shallow_tuple (PDict d)) = Failed ''ValueError''
     \<and> outcome_tuple (process_batch_deep_tuple (PDict d)) = Failed ''ValueError''
     \<and> outcome_union (parse_message_shallow_union (PDict d)) = Failed ''ValueError''
     \<and> outcome_union (process_batch_deep_union (PDict d)) = Failed ''ValueError''"
  using assms
  by (simp add: parse_message_shallow_tuple_exc process_batch_deep_tuple_exc
      parse_message_shallow_union_exc process_batch_deep_union_exc
      outcome_as_pair outcome_as_union
      parse_message_shallow_exc_digits process_batch_deep_exc_digits)

theorem int_timestamp_is_value_error_witness:
  "map_of [(''timestamp'', PInt 123456)] ''timestamp'' = Some (PInt 123456)
   \<and> outcome_exc (parse_message_shallow_exc (PDict [(''timestamp'', PInt 123456)]))
       = Failed ''ValueError''
   \<and> outcome_tuple (process_batch_deep_tuple (PDict [(''timestamp'', PInt 123456)]))
       = Failed ''ValueError''
   \<and> outcome_union (process_batch_deep_union (PDict [(''timestamp'', PInt 123456)]))
       = Failed ''ValueError''"
  using int_timestamp_is_value_error [of "[(''timestamp'', PInt 123456)]"]
  by simp

subsection \<open>The sample batch\<close>

lemma sample_batch_exc:
  "run_shallow_exc sample_batch = \<lparr>success = 1, failure = 1, errors = [''ValueError'']\<rparr>"
  "run_deep_exc sample_batch = \<lparr>success = 1, failure = 1, errors = [''ValueError'']\<rparr>"
  by (simp_all only: run_shallow_exc_def run_deep_exc_def sample_batch_def
        loop_shallow_exc_step loop_deep_exc_step loop_shallow_exc.simps(1) loop_deep_exc.simps(1))
     (simp_all add: getitem_def parse_message_shallow_exc_sample process_batch_deep_exc_sample
        parse_message_shallow_exc_digits process_batch_deep_exc_digits)

lemma sample_batch_has_messages:
  "\<forall>tc \<in> set sample_batch. map_of tc ''message'' \<noteq> None"
  by (simp add: sample_batch_def)

lemma sample_batch_values:
  "run_shallow_tuple sample_batch = Inr \<lparr>success = 1, failure = 1, errors = [''ValueError'']\<rparr>"
  "run_deep_tuple sample_batch = Inr \<lparr>success = 1, failure = 1, errors = [''ValueError'']\<rparr>"
  "run_shallow_union sample_batch = Inr \<lparr>success = 1, failure = 1, errors = [''ValueError'']\<rparr>"
  "run_deep_union sample_batch = Inr \<lparr>success = 1, failure = 1, errors = [''ValueError'']\<rparr>"
  using sample_batch_has_messages sample_batch_exc
  by (simp_all add: run_shallow_tuple_def run_deep_tuple_def run_shallow_union_def
      run_deep_union_def run_shallow_exc_def run_deep_exc_def
      loop_shallow_tuple_total loop_deep_tuple_total loop_shallow_union_total
      loop_deep_union_total)

text \<open>
  C2.  On a batch in which every test case has a \<^verbatim>\<open>"message"\<close>, the paired-return
  runner and the tagged-union runner return the very results of the raising runner of
  the same depth: the same success count, the same failure count, and the same list of
  exception class names, one per failed case in batch order.  So the three strategies
  classify every test case alike, and a failure has the same kind in all three.
\<close>

theorem runners_classify_alike:
  assumes "\<forall>tc \<in> set tcs. map_of tc ''message'' \<noteq> None"
  shows "run_shallow_tuple tcs = Inr (run_shallow_exc tcs)
     \<and> run_shallow_union tcs = Inr (run_shallow_exc tcs)
     \<and> run_deep_tuple tcs = Inr (run_deep_exc tcs)
     \<and> run_deep_union tcs = Inr (run_deep_exc tcs)"
  using assms
  by (simp add: run_shallow_tuple_def run_shallow_union_def run_deep_tuple_def
      run_deep_union_def run_shallow_exc_def run_deep_exc_def
      loop_shallow_tuple_total loop_shallow_union_total
      loop_deep_tuple_total loop_deep_union_total)

theorem runners_classify_alike_witness:
  "list_all (\<lambda>tc. map_of tc ''message'' \<noteq> None) sample_batch
   \<and> run_shallow_exc sample_batch = \<lparr>success = 1, failure = 1, errors = [''ValueError'']\<rparr>
   \<and> run_deep_exc sample_batch = \<lparr>success = 1, failure = 1, errors = [''ValueError'']\<rparr>
   \<and> run_shallow_tuple sample_batch = Inr (run_shallow_exc sample_batch)
   \<and> run_shallow_union sample_batch = Inr (run_shallow_exc sample_batch)
   \<and> run_deep_tuple sample_batch = Inr (run_deep_exc sample_batch)
   \<and> run_deep_union sample_batch = Inr (run_deep_exc sample_batch)"
  using runners_classify_alike [of sample_batch] sample_batch_has_messages sample_batch_exc
  by (simp add: list_all_iff)

text \<open>
  C8.  For every batch, when a runner returns, its success count and its failure count
  add up to the number of test cases.  The raising runners always return; a paired-return
  or tagged-union runner returns \<open>Inr\<close> when no \<^verbatim>\<open>KeyError\<close> escaped it, which
  \<open>loop_shallow_tuple_total\<close> and its siblings show to be the case whenever every test
  case has a \<^verbatim>\<open>"message"\<close>.
\<close>

theorem tallies_add_up:
  "success (run_shallow_exc tcs) + failure (run_shallow_exc tcs) = length tcs
   \<and> success (run_deep_exc tcs) + failure (run_deep_exc tcs) = length tcs
   \<and> (run_shallow_tuple tcs = Inr r1 \<longrightarrow> success r1 + failure r1 = length tcs)
   \<and> (run_deep_tuple tcs = Inr r2 \<longrightarrow> success r2 + failure r2 = length tcs)
   \<and> (run_shallow_union tcs = Inr r3 \<longrightarrow> success r3 + failure r3 = length tcs)
   \<and> (run_deep_union tcs = Inr r4 \<longrightarrow> success r4 + failure r4 = length tcs)"
proof -
  have "success (run_shallow_exc tcs) + failure (run_shallow_exc tcs) = length tcs"
    by (simp add: run_shallow_exc_def loop_shallow_exc_counts)
  moreover have "success (run_deep_exc tcs) + failure (run_deep_exc tcs) = length tcs"
    by (simp add: run_deep_exc_def loop_deep_exc_counts)
  moreover have "run_shallow_tuple tcs = Inr r1 \<longrightarrow> success r1 + failure r1 = length tcs"
    using loop_shallow_tuple_counts [of _ tcs r1] by (auto simp: run_shallow_tuple_def)
  moreover have "run_deep_tuple tcs = Inr r2 \<longrightarrow> success r2 + failure r2 = length tcs"
    using loop_deep_tuple_counts [of _ tcs r2] by (auto simp: run_deep_tuple_def)
  moreover have "run_shallow_union tcs = Inr r3 \<longrightarrow> success r3 + failure r3 = length tcs"
    using loop_shallow_union_counts [of _ tcs r3] by (auto simp: run_shallow_union_def)
  moreover have "run_deep_union tcs = Inr r4 \<longrightarrow> success r4 + failure r4 = length tcs"
    using loop_deep_union_counts [of _ tcs r4] by (auto simp: run_deep_union_def)
  ultimately show ?thesis by blast
qed

theorem tallies_add_up_witness:
  "run_shallow_tuple sample_batch = Inr \<lparr>success = 1, failure = 1, errors = [''ValueError'']\<rparr>
   \<and> run_deep_tuple sample_batch = Inr \<lparr>success = 1, failure = 1, errors = [''ValueError'']\<rparr>
   \<and> run_shallow_union sample_batch = Inr \<lparr>success = 1, failure = 1, errors = [''ValueError'']\<rparr>
   \<and> run_deep_union sample_batch = Inr \<lparr>success = 1, failure = 1, errors = [''ValueError'']\<rparr>
   \<and> success \<lparr>success = 1, failure = 1, errors = [''ValueError'']\<rparr>
       + failure \<lparr>success = 1, failure = 1, errors = [''ValueError'']\<rparr> = length sample_batch
   \<and> success (run_shallow_exc sample_batch) + failure (run_shallow_exc sample_batch)
       = length sample_batch"
  using tallies_add_up [of sample_batch
      "\<lparr>success = 1, failure = 1, errors = [''ValueError'']\<rparr>"
      "\<lparr>success = 1, failure = 1, errors = [''ValueError'']\<rparr>"
      "\<lparr>success = 1, failure = 1, errors = [''ValueError'']\<rparr>"
      "\<lparr>success = 1, failure = 1, errors = [''ValueError'']\<rparr>"]
    sample_batch_values
  by simp

text \<open>
  C10.  A test case without the key \<^verbatim>\<open>"message"\<close>: a raising runner counts it as
  a failure, records \<^verbatim>\<open>KeyError\<close> and goes on with the rest of the batch; in a
  paired-return or tagged-union runner the \<^verbatim>\<open>KeyError\<close> escapes and the run has no
  result.
\<close>

theorem missing_message_key:
  assumes "map_of tc ''message'' = None"
  shows "run_shallow_exc (pre @ tc # post)
           = loop_shallow_exc (tally (run_shallow_exc pre) (Failed ''KeyError'')) post
     \<and> run_deep_exc (pre @ tc # post)
           = loop_deep_exc (tally (run_deep_exc pre) (Failed ''KeyError'')) post
     \<and> run_shallow_tuple (pre @ tc # post) = Inl (KeyError ''message'')
     \<and> run_deep_tuple (pre @ tc # post) = Inl (KeyError ''message'')
     \<and> run_shallow_union (pre @ tc # post) = Inl (KeyError ''message'')
     \<and> run_deep_union (pre @ tc # post) = Inl (KeyError ''message'')"
proof -
  have k: "getitem tc ''message'' = Inl (KeyError ''message'')"
    using assms by (simp add: getitem_def)
  have "run_shallow_exc (pre @ tc # post)
          = loop_shallow_exc (tally (run_shallow_exc pre) (Failed ''KeyError'')) post"
    unfolding run_shallow_exc_def loop_shallow_exc_append loop_shallow_exc_step [of _ tc]
    by (simp add: k)
  moreover have "run_deep_exc (pre @ tc # post)
          = loop_deep_exc (tally (run_deep_exc pre) (Failed ''KeyError'')) post"
    unfolding run_deep_exc_def loop_deep_exc_append loop_deep_exc_step [of _ tc]
    by (simp add: k)
  ultimately show ?thesis
    using assms
    by (simp add: run_shallow_tuple_def run_deep_tuple_def run_shallow_union_def
        run_deep_union_def loop_shallow_tuple_keyerror loop_deep_tuple_keyerror
        loop_shallow_union_keyerror loop_deep_union_keyerror)
qed

theorem missing_message_key_witness:
  "map_of [(''id'', PInt 7)] ''message'' = None
   \<and> run_shallow_exc ([] @ [(''id'', PInt 7)] # sample_batch)
       = \<lparr>success = 1, failure = 2, errors = [''KeyError'', ''ValueError'']\<rparr>
   \<and> run_deep_exc ([] @ [(''id'', PInt 7)] # sample_batch)
       = \<lparr>success = 1, failure = 2, errors = [''KeyError'', ''ValueError'']\<rparr>
   \<and> run_shallow_tuple ([] @ [(''id'', PInt 7)] # sample_batch) = Inl (KeyError ''message'')
   \<and> run_deep_union ([] @ [(''id'', PInt 7)] # sample_batch) = Inl (KeyError ''message'')"
proof -
  have a: "loop_shallow_exc \<lparr>success = 0, failure = 1, errors = [''KeyError'']\<rparr> sample_batch
        = \<lparr>success = 1, failure = 2, errors = [''KeyError'', ''ValueError'']\<rparr>"
    by (simp only: sample_batch_def loop_shallow_exc_step loop_shallow_exc.simps(1))
       (simp add: getitem_def parse_message_shallow_exc_sample parse_message_shallow_exc_digits)
  have b: "loop_deep_exc \<lparr>success = 0, failure = 1, errors = [''KeyError'']\<rparr> sample_batch
        = \<lparr>success = 1, failure = 2, errors = [''KeyError'', ''ValueError'']\<rparr>"
    by (simp only: sample_batch_def loop_deep_exc_step loop_deep_exc.simps(1))
       (simp add: getitem_def process_batch_deep_exc_sample process_batch_deep_exc_digits)
  show ?thesis
    using missing_message_key [of "[(''id'', PInt 7)]" "[]" sample_batch] a b
    by (simp add: run_shallow_exc_def run_deep_exc_def)
qed

subsection \<open>Per-call averages\<close>

lemma averages_ok_upd:
  "averages_ok ft \<Longrightarrow>
   percall_tot e = (if 0 < ncalls e then tottime e / real_of_int (ncalls e) else 0) \<Longrightarrow>
   percall_cum e = (if 0 < ncalls e then cumtime e / real_of_int (ncalls e) else 0) \<Longrightarrow>
   averages_ok (ft(p \<mapsto> e))"
  unfolding averages_ok_def by (simp del: split_paired_All)

lemma averages_ok_init: "averages_ok ft \<Longrightarrow> averages_ok (init_times ft ps)"
proof (induction ps arbitrary: ft)
  case Nil
  then show ?case by simp
next
  case (Cons p ps)
  show ?case
    unfolding init_times.simps
    by (rule Cons.IH, rule averages_ok_upd [OF Cons.prems]) simp_all
qed

lemma averages_ok_match:
  "averages_ok ft \<Longrightarrow>
     \<exists>ft'. match_patterns ft name nc tt ct ps = Inr ft' \<and> averages_ok ft'"
proof (induction ps)
  case Nil
  then show ?case by simp
next
  case (Cons p ps)
  show ?case
  proof (cases "contains p name")
    case False
    with Cons show ?thesis by simp
  next
    case True
    show ?thesis
    proof (cases "0 < nc")
      case pos: True
      have "averages_ok (ft(p \<mapsto> \<lparr>ncalls = nc, tottime = tt, cumtime = ct,
              percall_tot = tt / real_of_int nc, percall_cum = ct / real_of_int nc\<rparr>))"
        by (rule averages_ok_upd [OF Cons.prems]) (simp_all add: pos)
      with True pos show ?thesis by (simp add: truediv_def)
    next
      case nonpos: False
      have "averages_ok (ft(p \<mapsto> \<lparr>ncalls = nc, tottime = tt, cumtime = ct,
              percall_tot = 0, percall_cum = 0\<rparr>))"
        by (rule averages_ok_upd [OF Cons.prems]) (simp_all add: nonpos)
      with True nonpos show ?thesis by simp
    qed
  qed
qed

lemma averages_ok_loop:
  "averages_ok ft \<Longrightarrow> \<exists>ft'. stats_loop ft ps stats = Inr ft' \<and> averages_ok ft'"
proof (induction ft ps stats rule: stats_loop.induct)
  case (1 function_times func_patterns)
  then show ?case by simp
next
  case (2 function_times func_patterns func cc nc tt ct callers rest)
  from averages_ok_match [OF "2.prems"] obtain ft1
    where m: "match_patterns function_times (snd (snd func)) nc tt ct func_patterns = Inr ft1"
      and ok: "averages_ok ft1"
    by blast
  from "2.IH" [OF refl m ok] show ?case
    by (simp add: m)
qed

text \<open>
  C9.  \<^verbatim>\<open>extract_function_stats\<close> always returns (no division raises), and in every
  entry of the dictionary it returns, a call count of zero comes with averages of zero
  and a positive call count with the quotients \<open>tottime / ncalls\<close> and
  \<open>cumtime / ncalls\<close>.
\<close>

theorem per_call_averages:
  "\<exists>ft. extract_function_stats stats func_patterns = Inr ft \<and>
     (\<forall>p e. ft p = Some e \<longrightarrow>
        (ncalls e = 0 \<longrightarrow> percall_tot e = 0 \<and> percall_cum e = 0) \<and>
        (0 < ncalls e \<longrightarrow>
           percall_tot e = tottime e / real_of_int (ncalls e) \<and>
           percall_cum e = cumtime e / real_of_int (ncalls e)))"
proof -
  have "averages_ok (init_times Map.empty func_patterns)"
    by (rule averages_ok_init) (simp add: averages_ok_def)
  then obtain ft
    where ft: "stats_loop (init_times Map.empty func_patterns) func_patterns stats = Inr ft"
      and ok: "averages_ok ft"
    using averages_ok_loop by blast
  have "(ncalls e = 0 \<longrightarrow> percall_tot e = 0 \<and> percall_cum e = 0) \<and>
        (0 < ncalls e \<longrightarrow>
           percall_tot e = tottime e / real_of_int (ncalls e) \<and>
           percall_cum e = cumtime e / real_of_int (ncalls e))" if "ft p = Some e" for p e
  proof -
    from ok that have
      "percall_tot e = (if 0 < ncalls e then tottime e / real_of_int (ncalls e) else 0)"
      "percall_cum e = (if 0 < ncalls e then cumtime e / real_of_int (ncalls e) else 0)"
      unfolding averages_ok_def by blast+
    then show ?thesis by simp
  qed
  with ft show ?thesis
    unfolding extract_function_stats_def by blast
qed

lemma contains_sample:
  "contains ''validate_format_shallow_tuple'' ''validate_format_shallow_tuple''"
  "\<not> contains ''validate_format_shallow_tuple'' ''<method 'split' of 'str' objects>''"
  "\<not> contains ''parse_datetime_shallow_tuple'' ''<method 'split' of 'str' objects>''"
  by simp_all

lemma sample_stats_extracted:
  "extract_function_stats sample_stats sample_patterns =
     Inr [''parse_datetime_shallow_tuple'' \<mapsto>
            \<lparr>ncalls = 0, tottime = 0, cumtime = 0, percall_tot = 0, percall_cum = 0\<rparr>,
          ''validate_format_shallow_tuple'' \<mapsto>
            \<lparr>ncalls = 1000, tottime = 2, cumtime = 6, percall_tot = 1 / 500, percall_cum = 3 / 500\<rparr>]"
  by (simp add: extract_function_stats_def sample_stats_def sample_patterns_def truediv_def
      contains_sample del: contains.simps)

theorem per_call_averages_witness:
  "\<exists>ft. extract_function_stats sample_stats sample_patterns = Inr ft
     \<and> (\<exists>e. ft ''validate_format_shallow_tuple'' = Some e \<and> 0 < ncalls e
            \<and> percall_tot e = tottime e / real_of_int (ncalls e)
            \<and> percall_cum e = cumtime e / real_of_int (ncalls e)
            \<and> percall_tot e = 1 / 500)
     \<and> (\<exists>e. ft ''parse_datetime_shallow_tuple'' = Some e \<and> ncalls e = 0
            \<and> percall_tot e = 0 \<and> percall_cum e = 0)"
proof -
  let ?v = "\<lparr>ncalls = 1000, tottime = 2, cumtime = 6, percall_tot = 1 / 500, percall_cum = 3 / 500\<rparr>"
  let ?p = "\<lparr>ncalls = 0, tottime = 0, cumtime = 0, percall_tot = 0, percall_cum = 0\<rparr>"
  from per_call_averages [of sample_stats sample_patterns]
  obtain ft where ft: "extract_function_stats sample_stats sample_patterns = Inr ft"
    and av: "\<forall>p e. ft p = Some e \<longrightarrow>
        (ncalls e = 0 \<longrightarrow> percall_tot e = 0 \<and> percall_cum e = 0) \<and>
        (0 < ncalls e \<longrightarrow>
           percall_tot e = tottime e / real_of_int (ncalls e) \<and>
           percall_cum e = cumtime e / real_of_int (ncalls e))"
    by blast
  from ft have v: "ft ''validate_format_shallow_tuple'' = Some ?v"
    and p: "ft ''parse_datetime_shallow_tuple'' = Some ?p"
    by (auto simp: sample_stats_extracted)
  from av v have "0 < ncalls ?v \<longrightarrow>
      percall_tot ?v = tottime ?v / real_of_int (ncalls ?v) \<and>
      percall_cum ?v = cumtime ?v / real_of_int (ncalls ?v)"
    by blast
  moreover from av p have "ncalls ?p = 0 \<longrightarrow> percall_tot ?p = 0 \<and> percall_cum ?p = 0"
    by blast
  ultimately show ?thesis
    using ft v p by (intro exI [of _ ft]) simp
qed

subsection \<open>Microseconds per test\<close>

lemma length_sample_batch: "length sample_batch = 2"
  by (simp add: sample_batch_def)

text \<open>
  C4 at a batch of two test cases run in one second: the report says 1000 microseconds
  per test, where the elapsed time divided by the number of test cases is 500000
  microseconds.  The divisor in the code is the constant 1000, not the batch size.
\<close>

theorem us_per_test_divides_by_1000:
  "us_per_test (profile_function run_shallow_exc sample_batch 0 1) = 1000
   \<and> total_time (profile_function run_shallow_exc sample_batch 0 1)
        / real (length sample_batch) * 1000000 = 500000"
  by (simp add: us_per_test_def profile_function_def length_sample_batch)

subsection \<open>Whitespace normalisation is idempotent\<close>

lemma split_from_word:
  "\<forall>c \<in> set w. \<not> isspace c \<Longrightarrow> split_from acc (w @ s) = split_from (acc @ w) s"
  by (induction w arbitrary: acc) simp_all

lemma split_from_words:
  "\<forall>c \<in> set acc. \<not> isspace c \<Longrightarrow>
     \<forall>w \<in> set (split_from acc s). w \<noteq> [] \<and> (\<forall>c \<in> set w. \<not> isspace c)"
proof (induction s arbitrary: acc)
  case Nil
  then show ?case by simp
next
  case (Cons a s)
  show ?case
  proof (cases "isspace a")
    case True
    have "\<forall>w \<in> set (split_from [] s). w \<noteq> [] \<and> (\<forall>c \<in> set w. \<not> isspace c)"
      by (rule Cons.IH) simp
    with True Cons.prems show ?thesis by simp
  next
    case False
    have "\<forall>w \<in> set (split_from (acc @ [a]) s). w \<noteq> [] \<and> (\<forall>c \<in> set w. \<not> isspace c)"
      by (rule Cons.IH) (use False Cons.prems in simp)
    with False show ?thesis by simp
  qed
qed

lemma split_words:
  "\<forall>w \<in> set (split s). w \<noteq> [] \<and> (\<forall>c \<in> set w. \<not> isspace c)"
  unfolding split_def by (rule split_from_words) simp

lemma isspace_space: "isspace (CHR '' '')"
  by (simp add: isspace_def)

lemma split_join:
  "\<forall>w \<in> set ws. w \<noteq> [] \<and> (\<forall>c \<in> set w. \<not> isspace c) \<Longrightarrow>
     split (join '' '' ws) = ws"
proof (induction "'' ''" ws rule: join.induct)
  case 1
  then show ?case by (simp add: split_def)
next
  case (2 w)
  then have "split_from [] (w @ []) = split_from ([] @ w) []"
    by (intro split_from_word) simp
  with 2 show ?case by (simp add: split_def)
next
  case (3 w v ws)
  then have w: "w \<noteq> []" "\<forall>c \<in> set w. \<not> isspace c"
    and rest: "split (join '' '' (v # ws)) = v # ws"
    by simp_all
  have "split_from [] (w @ '' '' @ join '' '' (v # ws))
          = split_from ([] @ w) ('' '' @ join '' '' (v # ws))"
    using w(2) by (rule split_from_word)
  also have "\<dots> = w # split_from [] (join '' '' (v # ws))"
    using w(1) by (simp add: isspace_space)
  finally show ?case
    using rest by (simp add: split_def)
qed

lemma join_split_idem: "join '' '' (split (join '' '' (split s))) = join '' '' (split s)"
  by (simp add: split_join split_words)

lemma parse_datetime_shallow_deep_exc:
  "parse_datetime_shallow_exc (join '' '' (split s)) = parse_datetime_deep_exc s"
  by (simp add: parse_datetime_shallow_exc_def parse_datetime_deep_exc_def
      validate_format_shallow_exc_def validate_format_deep_exc_def join_split_idem)

lemma parse_message_shallow_exc_collapsed:
  "parse_message_shallow_exc m =
     parse_datetime_shallow_exc (strip_chars [CHR 0x27] (strip_chars [CHR 0x22] (collapsed_text m)))"
  by (simp add: parse_message_shallow_exc_def collapsed_text_def timestamp_text_def Let_def)

lemma timestamp_text_as_dict:
  "timestamp_text (PDict (case m of PDict d \<Rightarrow> d | _ \<Rightarrow> [])) = timestamp_text m"
  by (cases m) (simp_all add: timestamp_text_def dict_get_def)

lemma process_batch_deep_exc_collapsed:
  "process_batch_deep_exc m = parse_datetime_shallow_exc (collapsed_text m)"
proof -
  have "process_batch_deep_exc m =
      parse_datetime_deep_exc (replace [CHR 0x0D] '' '' (replace [CHR 0x0A] '' ''
        (replace [CHR 0x09] '' '' (strip (timestamp_text (PDict (case m of PDict d \<Rightarrow> d | _ \<Rightarrow> [])))))))"
    by (simp add: process_batch_deep_exc_def validate_message_deep_exc_def
        parse_message_deep_exc_def timestamp_text_def Let_def)
  then show ?thesis
    by (simp add: timestamp_text_as_dict collapsed_text_def parse_datetime_shallow_deep_exc)
qed

lemma depth_agrees_without_quotes:
  assumes "strip_chars [CHR 0x27] (strip_chars [CHR 0x22] (collapsed_text m)) = collapsed_text m"
  shows "parse_message_shallow_exc m = process_batch_deep_exc m
     \<and> parse_message_shallow_tuple m = process_batch_deep_tuple m
     \<and> parse_message_shallow_union m = process_batch_deep_union m"
  using assms
  by (simp add: parse_message_shallow_tuple_exc process_batch_deep_tuple_exc
      parse_message_shallow_union_exc process_batch_deep_union_exc
      parse_message_shallow_exc_collapsed process_batch_deep_exc_collapsed)


subsection \<open>What \<open>strptime\<close> accepts is made of digits, separators and whitespace\<close>

lemma eats_seq:
  assumes "eats_format_chars p" and "\<And>a. eats_format_chars (f a)"
  shows "eats_format_chars (seq p f)"
  unfolding eats_format_chars_def
proof (intro allI impI)
  fix s v r
  assume "(v, r) \<in> set (seq p f s)"
  then obtain a r1 where a: "(a, r1) \<in> set (p s)" and v: "(v, r) \<in> set (f a r1)"
    by (auto simp: seq_def)
  from a assms(1) obtain pre1 where p1: "s = pre1 @ r1" "\<forall>c \<in> set pre1. format_char c"
    unfolding eats_format_chars_def by blast
  from v assms(2) [of a] obtain pre2 where p2: "r1 = pre2 @ r" "\<forall>c \<in> set pre2. format_char c"
    unfolding eats_format_chars_def by blast
  from p1 p2 have "s = (pre1 @ pre2) @ r \<and> (\<forall>c \<in> set (pre1 @ pre2). format_char c)"
    by auto
  then show "\<exists>pre. s = pre @ r \<and> (\<forall>c \<in> set pre. format_char c)"
    by blast
qed

lemma eats_digit1:
  assumes "\<And>c. p c \<Longrightarrow> isdigit c"
  shows "eats_format_chars (digit1 p)"
  unfolding eats_format_chars_def
proof (intro allI impI)
  fix s v r
  assume "(v, r) \<in> set (digit1 p s)"
  then obtain a where "s = [a] @ r" "p a"
    by (auto simp: digit1_def split: list.splits if_splits)
  with assms show "\<exists>pre. s = pre @ r \<and> (\<forall>c \<in> set pre. format_char c)"
    by (intro exI [of _ "[a]"]) (simp add: format_char_def)
qed

lemma eats_digit2:
  assumes "\<And>c. p c \<Longrightarrow> isdigit c" and "\<And>c. q c \<Longrightarrow> isdigit c"
  shows "eats_format_chars (digit2 p q)"
  unfolding eats_format_chars_def
proof (intro allI impI)
  fix s v r
  assume "(v, r) \<in> set (digit2 p q s)"
  then obtain a b where "s = [a, b] @ r" "p a" "q b"
    by (auto simp: digit2_def split: list.splits if_splits)
  with assms show "\<exists>pre. s = pre @ r \<and> (\<forall>c \<in> set pre. format_char c)"
    by (intro exI [of _ "[a, b]"]) (simp add: format_char_def)
qed

lemma eats_literal:
  assumes "format_char c"
  shows "eats_format_chars (literal c)"
  unfolding eats_format_chars_def
proof (intro allI impI)
  fix s v r
  assume "(v, r) \<in> set (literal c s)"
  then have "s = [c] @ r"
    by (auto simp: literal_def split: list.splits if_splits)
  with assms show "\<exists>pre. s = pre @ r \<and> (\<forall>c \<in> set pre. format_char c)"
    by (intro exI [of _ "[c]"]) simp
qed

lemma spaces_rests_prefix:
  "r \<in> set (spaces_rests s) \<Longrightarrow> \<exists>pre. s = pre @ r \<and> (\<forall>c \<in> set pre. isspace c)"
proof (induction s)
  case Nil
  then show ?case by simp
next
  case (Cons a s)
  then have sp: "isspace a" and r: "r \<in> set (spaces_rests s) \<or> r = s"
    by (auto split: if_splits)
  from r show ?case
  proof
    assume "r \<in> set (spaces_rests s)"
    with Cons.IH obtain pre where "s = pre @ r" "\<forall>c \<in> set pre. isspace c" by blast
    with sp show ?thesis by (intro exI [of _ "a # pre"]) simp
  next
    assume "r = s"
    with sp show ?thesis by (intro exI [of _ "[a]"]) simp
  qed
qed

lemma eats_spaces: "eats_format_chars spaces"
  unfolding eats_format_chars_def
proof (intro allI impI)
  fix s v r
  assume "(v, r) \<in> set (spaces s)"
  then have "r \<in> set (spaces_rests s)" by (auto simp: spaces_def)
  then obtain pre where "s = pre @ r" "\<forall>c \<in> set pre. isspace c"
    using spaces_rests_prefix by blast
  then show "\<exists>pre. s = pre @ r \<and> (\<forall>c \<in> set pre. format_char c)"
    by (intro exI [of _ pre]) (simp add: format_char_def)
qed

lemma eats_append:
  "eats_format_chars p \<Longrightarrow> eats_format_chars q \<Longrightarrow> eats_format_chars (\<lambda>s. p s @ q s)"
  unfolding eats_format_chars_def by auto

lemma one_of_digit:
  "one_of ''0'' c \<Longrightarrow> isdigit c" "one_of ''1'' c \<Longrightarrow> isdigit c" "one_of ''2'' c \<Longrightarrow> isdigit c"
  "one_of ''3'' c \<Longrightarrow> isdigit c" "one_of ''6'' c \<Longrightarrow> isdigit c"
  "one_of ''01'' c \<Longrightarrow> isdigit c" "one_of ''12'' c \<Longrightarrow> isdigit c"
  "one_of ''012'' c \<Longrightarrow> isdigit c" "one_of ''0123'' c \<Longrightarrow> isdigit c"
  "one_of ''012345'' c \<Longrightarrow> isdigit c" "one_of ''123456789'' c \<Longrightarrow> isdigit c"
  by (auto simp: one_of_def isdigit_def)

lemma re_Y_shape:
  assumes "(v, r) \<in> set (re_Y s)"
  shows "\<exists>a b c d. s = [a, b, c, d] @ r \<and> isdigit a \<and> isdigit b \<and> isdigit c \<and> isdigit d"
proof (cases s)
  case Nil
  with assms show ?thesis by (simp add: re_Y_def)
next
  case s1: (Cons a s1)
  show ?thesis
  proof (cases s1)
    case Nil
    with assms s1 show ?thesis by (simp add: re_Y_def)
  next
    case s2: (Cons b s2)
    show ?thesis
    proof (cases s2)
      case Nil
      with assms s1 s2 show ?thesis by (simp add: re_Y_def)
    next
      case s3: (Cons c s3)
      show ?thesis
      proof (cases s3)
        case Nil
        with assms s1 s2 s3 show ?thesis by (simp add: re_Y_def)
      next
        case (Cons d s4)
        with assms s1 s2 s3 show ?thesis
          by (simp add: re_Y_def split: if_splits)
      qed
    qed
  qed
qed

lemma eats_re_Y: "eats_format_chars re_Y"
  unfolding eats_format_chars_def
proof (intro allI impI)
  fix s v r
  assume "(v, r) \<in> set (re_Y s)"
  then obtain a b c d where "s = [a, b, c, d] @ r" "isdigit a" "isdigit b" "isdigit c" "isdigit d"
    using re_Y_shape by blast
  then show "\<exists>pre. s = pre @ r \<and> (\<forall>c \<in> set pre. format_char c)"
    by (intro exI [of _ "[a, b, c, d]"]) (simp add: format_char_def)
qed

lemma eats_blank_digit:
  "eats_format_chars
     (\<lambda>s. concat (map (\<lambda>(u, r). digit1 (one_of ''123456789'') r) (literal CHR 0x20 s)))"
proof -
  have sp: "format_char (CHR 0x20)"
    by (simp add: format_char_def isspace_def)
  have "eats_format_chars (seq (literal CHR 0x20) (\<lambda>u. digit1 (one_of ''123456789'')))"
    by (rule eats_seq, rule eats_literal, rule sp, rule eats_digit1, rule one_of_digit)
  moreover have "seq (literal CHR 0x20) (\<lambda>u. digit1 (one_of ''123456789''))
      = (\<lambda>s. concat (map (\<lambda>(u, r). digit1 (one_of ''123456789'') r) (literal CHR 0x20 s)))"
    by (rule ext) (simp add: seq_def)
  ultimately show ?thesis by simp
qed

lemma eats_re:
  "eats_format_chars re_m" "eats_format_chars re_d" "eats_format_chars re_H"
  "eats_format_chars re_M" "eats_format_chars re_S"
  unfolding re_m_def [abs_def] re_d_def [abs_def] re_H_def [abs_def] re_M_def [abs_def]
    re_S_def [abs_def]
  by (assumption | rule eats_append eats_digit2 eats_digit1 eats_blank_digit one_of_digit)+

lemma eats_format_regex: "eats_format_chars format_regex"
proof -
  have fin: "eats_format_chars (\<lambda>r. [(dt, r)])" for dt :: datetime
    by (simp add: eats_format_chars_def)
  have sep: "format_char CHR ''-''" "format_char CHR '':''"
    by (simp_all add: format_char_def)
  show ?thesis
    unfolding format_regex_def
    by (intro eats_seq eats_re_Y eats_re eats_literal eats_spaces sep fin)
qed

lemma strptime_format_chars:
  assumes "strptime s = Inr dt"
  shows "\<forall>c \<in> set s. format_char c"
proof -
  from assms obtain dt' rest ms where m: "format_regex s = (dt', rest) # ms" and "rest = []"
    by (auto simp: strptime_def split: list.splits if_splits)
  then have "(dt', []) \<in> set (format_regex s)" by simp
  with eats_format_regex obtain pre where "s = pre @ []" "\<forall>c \<in> set pre. format_char c"
    unfolding eats_format_chars_def by blast
  then show ?thesis by simp
qed

subsection \<open>A quote character survives the text processing\<close>

lemma quote_facts_dq:
  "\<not> isspace (CHR 0x22)" "\<not> format_char (CHR 0x22)" "lower_char (CHR 0x22) = CHR 0x22"
  "upper_char (CHR 0x22) = CHR 0x22"
  "CHR 0x22 \<noteq> CHR '',''" "CHR 0x22 \<noteq> CHR '';''" "CHR 0x22 \<noteq> CHR ''|''"
  by (simp_all add: isspace_def format_char_def isdigit_def lower_char_def
      upper_char_def upper_letters_def lower_letters_def)

lemma quote_facts_sq:
  "\<not> isspace (CHR 0x27)" "\<not> format_char (CHR 0x27)" "lower_char (CHR 0x27) = CHR 0x27"
  "upper_char (CHR 0x27) = CHR 0x27"
  "CHR 0x27 \<noteq> CHR '',''" "CHR 0x27 \<noteq> CHR '';''" "CHR 0x27 \<noteq> CHR ''|''"
  by (simp_all add: isspace_def format_char_def isdigit_def lower_char_def
      upper_char_def upper_letters_def lower_letters_def)

lemma quote_facts:
  assumes "is_quote q"
  shows "\<not> isspace q" "\<not> format_char q" "lower_char q = q" "upper_char q = q"
    "q \<noteq> CHR '',''" "q \<noteq> CHR '';''" "q \<noteq> CHR ''|''"
  using assms quote_facts_dq quote_facts_sq unfolding is_quote_def by auto

lemma keep_replace:
  "c \<in> set x \<Longrightarrow> c \<noteq> a \<Longrightarrow> c \<in> set (replace [a] new x)"
  unfolding replace_def by (induction x) auto

lemma keep_title_from:
  "q \<in> set x \<Longrightarrow> lower_char q = q \<Longrightarrow> upper_char q = q \<Longrightarrow> q \<in> set (title_from b x)"
  by (induction x arbitrary: b) auto

lemma keep_lower_title:
  "q \<in> set x \<Longrightarrow> lower_char q = q \<Longrightarrow> upper_char q = q \<Longrightarrow> q \<in> set (lower (title x))"
proof -
  assume a: "q \<in> set x" "lower_char q = q" "upper_char q = q"
  then have "q \<in> set (title x)"
    unfolding title_def by (rule keep_title_from)
  then have "lower_char q \<in> lower_char ` set (title x)" by (rule imageI)
  with a(2) show ?thesis by (simp add: lower_def)
qed

lemma keep_split_from:
  "c \<in> set acc \<or> (c \<in> set s \<and> \<not> isspace c) \<Longrightarrow> \<exists>w \<in> set (split_from acc s). c \<in> set w"
proof (induction s arbitrary: acc)
  case Nil
  then show ?case by auto
next
  case (Cons a s)
  show ?case
  proof (cases "isspace a")
    case True
    from Cons.prems True consider "c \<in> set acc" | "c \<in> set s \<and> \<not> isspace c" by auto
    then show ?thesis
    proof cases
      case 1
      with True show ?thesis by auto
    next
      case 2
      then have "\<exists>w \<in> set (split_from [] s). c \<in> set w"
        by (intro Cons.IH) simp
      with True show ?thesis by auto
    qed
  next
    case False
    from Cons.prems have "c \<in> set (acc @ [a]) \<or> (c \<in> set s \<and> \<not> isspace c)" by auto
    then have "\<exists>w \<in> set (split_from (acc @ [a]) s). c \<in> set w"
      by (rule Cons.IH)
    with False show ?thesis by simp
  qed
qed

lemma set_join: "w \<in> set ws \<Longrightarrow> set w \<subseteq> set (join sep ws)"
  by (induction sep ws rule: join.induct) auto

lemma keep_join_split:
  "c \<in> set x \<Longrightarrow> \<not> isspace c \<Longrightarrow> c \<in> set (join sep (split x))"
  using keep_split_from [of c "[]" x] set_join [of _ "split x" sep]
  by (auto simp: split_def)

lemma dropWhile_noop: "\<forall>c \<in> set s. \<not> P c \<Longrightarrow> dropWhile P s = s"
  by (cases s) simp_all

lemma strip_chars_noop:
  "\<forall>c \<in> set s. c \<notin> set cs \<Longrightarrow> strip_chars cs s = s"
proof -
  assume a: "\<forall>c \<in> set s. c \<notin> set cs"
  then have "dropWhile (\<lambda>c. c \<in> set cs) s = s"
    by (intro dropWhile_noop) simp
  moreover from a have "dropWhile (\<lambda>c. c \<in> set cs) (rev s) = rev s"
    by (intro dropWhile_noop) simp
  ultimately show ?thesis by (simp add: strip_chars_def)
qed

lemma stripped_has_quote:
  assumes "strip_chars [CHR 0x27] (strip_chars [CHR 0x22] s) \<noteq> s"
  shows "\<exists>q \<in> set s. is_quote q"
proof (rule ccontr)
  assume "\<not> (\<exists>q \<in> set s. is_quote q)"
  then have "\<forall>c \<in> set s. c \<notin> set [CHR 0x22]" "\<forall>c \<in> set s. c \<notin> set [CHR 0x27]"
    by (auto simp: is_quote_def)
  then have "strip_chars [CHR 0x27] (strip_chars [CHR 0x22] s) = s"
    by (simp only: strip_chars_noop)
  with assms show False by simp
qed

subsection \<open>Failure kinds of the pipelines\<close>

lemma parse_datetime_shallow_exc_outcomes:
  "outcome_exc (parse_datetime_shallow_exc s) = Succeeded
   \<or> outcome_exc (parse_datetime_shallow_exc s) = Failed ''ValueError''"
  by (simp add: parse_datetime_shallow_exc_def validate_format_shallow_exc_def Let_def
      split: sum.splits)

lemma parse_datetime_shallow_exc_quote:
  assumes "is_quote q" and "q \<in> set s"
  shows "outcome_exc (parse_datetime_shallow_exc s) = Failed ''ValueError''"
proof -
  let ?n = "join '' '' (split s)"
  let ?r = "replace ''|'' '' '' (replace '';'' [] (replace '','' [] ?n))"
  let ?t = "lower (title (join '' '' (split ?r)))"
  let ?j = "join '' '' (split ?t)"
  note qf = quote_facts [OF assms(1)]
  from assms(2) have "q \<in> set ?n" by (intro keep_join_split qf)
  then have "q \<in> set ?r" by (intro keep_replace qf)
  then have "q \<in> set (join '' '' (split ?r))" by (intro keep_join_split qf)
  then have "q \<in> set ?t" by (intro keep_lower_title qf)
  then have q: "q \<in> set ?j" by (intro keep_join_split qf)
  then have ne: "?j \<noteq> []" by auto
  have "\<exists>e. strptime ?j = Inl e"
  proof (cases "strptime ?j")
    case (Inr dt)
    then have "format_char q" using strptime_format_chars q by blast
    with qf(2) show ?thesis by simp
  qed simp
  then obtain e where "strptime ?j = Inl e" ..
  with ne show ?thesis
    by (simp add: parse_datetime_shallow_exc_def validate_format_shallow_exc_def Let_def)
qed

lemma depth_outcomes_exc:
  "outcome_exc (process_batch_deep_exc m) = outcome_exc (parse_message_shallow_exc m)
   \<or> (strip_chars [CHR 0x27] (strip_chars [CHR 0x22] (collapsed_text m)) \<noteq> collapsed_text m
      \<and> outcome_exc (parse_message_shallow_exc m) = Succeeded
      \<and> outcome_exc (process_batch_deep_exc m) = Failed ''ValueError'')"
proof (cases "strip_chars [CHR 0x27] (strip_chars [CHR 0x22] (collapsed_text m)) = collapsed_text m")
  case True
  then show ?thesis
    by (simp add: parse_message_shallow_exc_collapsed process_batch_deep_exc_collapsed)
next
  case False
  then obtain q where "is_quote q" "q \<in> set (collapsed_text m)"
    using stripped_has_quote by blast
  then have deep: "outcome_exc (process_batch_deep_exc m) = Failed ''ValueError''"
    by (simp add: process_batch_deep_exc_collapsed parse_datetime_shallow_exc_quote)
  have "outcome_exc (parse_message_shallow_exc m) = Succeeded
      \<or> outcome_exc (parse_message_shallow_exc m) = Failed ''ValueError''"
    unfolding parse_message_shallow_exc_collapsed by (rule parse_datetime_shallow_exc_outcomes)
  with deep False show ?thesis by auto
qed

subsection \<open>The quoted sample\<close>

lemma collapsed_text_quoted:
  "collapsed_text quoted_message = [CHR 0x27] @ ''2024-01-15 10:30:45'' @ [CHR 0x27]"
  "strip_chars [CHR 0x27] (strip_chars [CHR 0x22] (collapsed_text quoted_message))
     = ''2024-01-15 10:30:45''"
  by code_simp+

lemma quoted_message_outcomes:
  "outcome_exc (parse_message_shallow_exc quoted_message) = Succeeded"
  "outcome_exc (process_batch_deep_exc quoted_message) = Failed ''ValueError''"
proof -
  show "outcome_exc (parse_message_shallow_exc quoted_message) = Succeeded"
    by (simp only: parse_message_shallow_exc_collapsed collapsed_text_quoted(2)
        parse_datetime_shallow_exc_sample outcome_exc.simps)
  have "is_quote (CHR 0x27)" by (simp add: is_quote_def)
  moreover have "CHR 0x27 \<in> set (collapsed_text quoted_message)"
    by (simp add: collapsed_text_quoted)
  ultimately show "outcome_exc (process_batch_deep_exc quoted_message) = Failed ''ValueError''"
    unfolding process_batch_deep_exc_collapsed by (rule parse_datetime_shallow_exc_quote)
qed

text \<open>
  How far the two depths can differ: they give the same outcome unless stripping
  surrounding quote characters changes the cleaned timestamp text, and then the shallow
  pipeline succeeds and the deep pipeline fails with a \<^verbatim>\<open>ValueError\<close>.
\<close>

lemma depth_differs_only_when_quoted:
  "(outcome_exc (process_batch_deep_exc m) = outcome_exc (parse_message_shallow_exc m)
    \<or> (strip_chars [CHR 0x27] (strip_chars [CHR 0x22] (collapsed_text m)) \<noteq> collapsed_text m
       \<and> outcome_exc (parse_message_shallow_exc m) = Succeeded
       \<and> outcome_exc (process_batch_deep_exc m) = Failed ''ValueError''))
   \<and> (outcome_tuple (process_batch_deep_tuple m) = outcome_tuple (parse_message_shallow_tuple m)
    \<or> (strip_chars [CHR 0x27] (strip_chars [CHR 0x22] (collapsed_text m)) \<noteq> collapsed_text m
       \<and> outcome_tuple (parse_message_shallow_tuple m) = Succeeded
       \<and> outcome_tuple (process_batch_deep_tuple m) = Failed ''ValueError''))
   \<and> (outcome_union (process_batch_deep_union m) = outcome_union (parse_message_shallow_union m)
    \<or> (strip_chars [CHR 0x27] (strip_chars [CHR 0x22] (collapsed_text m)) \<noteq> collapsed_text m
       \<and> outcome_union (parse_message_shallow_union m) = Succeeded
       \<and> outcome_union (process_batch_deep_union m) = Failed ''ValueError''))"
  using depth_outcomes_exc [of m]
  unfolding parse_message_shallow_tuple_exc process_batch_deep_tuple_exc
    parse_message_shallow_union_exc process_batch_deep_union_exc
    outcome_as_pair outcome_as_union
  by blast

text \<open>
  C3.  Depth must not change the outcome of a case.  The code breaks this at the message
  \<^verbatim>\<open>{"timestamp": "'2024-01-15 10:30:45'"}\<close>, whose timestamp text is wrapped in quote
  characters: it is a success of the shallow pipeline and a \<^verbatim>\<open>ValueError\<close> of the deep
  one.  \<^verbatim>\<open>parse_message_shallow_*\<close> strips surrounding quotes; its sibling
  \<^verbatim>\<open>parse_message_deep_*\<close> omits that step.
\<close>

theorem depth_changes_quoted_timestamp:
  "outcome_exc (parse_message_shallow_exc quoted_message) = Succeeded
   \<and> outcome_exc (process_batch_deep_exc quoted_message) = Failed ''ValueError''
   \<and> outcome_exc (process_batch_deep_exc quoted_message)
       \<noteq> outcome_exc (parse_message_shallow_exc quoted_message)
   \<and> run_shallow_exc [[(''id'', PInt 0), (''message'', quoted_message)]]
       = \<lparr>success = 1, failure = 0, errors = []\<rparr>
   \<and> run_deep_exc [[(''id'', PInt 0), (''message'', quoted_message)]]
       = \<lparr>success = 0, failure = 1, errors = [''ValueError'']\<rparr>"
proof -
  have "run_shallow_exc [[(''id'', PInt 0), (''message'', quoted_message)]]
      = \<lparr>success = 1, failure = 0, errors = []\<rparr>"
    by (simp only: run_shallow_exc_def loop_shallow_exc_step loop_shallow_exc.simps(1))
       (simp add: getitem_def quoted_message_outcomes)
  moreover have "run_deep_exc [[(''id'', PInt 0), (''message'', quoted_message)]]
      = \<lparr>success = 0, failure = 1, errors = [''ValueError'']\<rparr>"
    by (simp only: run_deep_exc_def loop_deep_exc_step loop_deep_exc.simps(1))
       (simp add: getitem_def quoted_message_outcomes)
  ultimately show ?thesis
    by (simp add: quoted_message_outcomes)
qed

end
